theory Spec2Isabelle
  imports Main
begin

section \<open>Values and documents\<close>

text \<open>
  The tools exchange plain JavaScript values: what \<^verbatim>\<open>JSON.parse\<close> yields, plus the
  store's \<^verbatim>\<open>ObjectId\<close>. An object is an association list in key order; numbers are
  modelled as integers (limits and counts are the only numbers the tools compute with).
\<close>

datatype json =
    JNull
  | JBool bool
  | JNum int
  | JStr string
  | JOid nat
  | JArr "json list"
  | JObj "(string \<times> json) list"

type_synonym obj = "(string \<times> json) list"

text \<open>JavaScript truthiness, as used by \<^verbatim>\<open>!x\<close> and \<^verbatim>\<open>x ? a : b\<close>.\<close>

fun truthy :: "json \<Rightarrow> bool" where
  "truthy JNull = False"
| "truthy (JBool b) = b"
| "truthy (JNum n) = (n \<noteq> 0)"
| "truthy (JStr s) = (s \<noteq> [])"
| "truthy (JOid n) = True"
| "truthy (JArr xs) = True"
| "truthy (JObj kvs) = True"

text \<open>\<^verbatim>\<open>Object.keys(o)\<close>, property lookup \<^verbatim>\<open>o.k\<close> (\<open>None\<close> is \<^verbatim>\<open>undefined\<close>) and
  the keyed write shared by \<^verbatim>\<open>{...o, k: v}\<close>, \<^verbatim>\<open>o[k] = v\<close> and \<^verbatim>\<open>Map.set(k, v)\<close>, which
  keeps the position of an existing key and appends a new one.\<close>

definition Object_keys :: "obj \<Rightarrow> string list" where
  "Object_keys ob = map fst ob"

definition get_prop :: "obj \<Rightarrow> string \<Rightarrow> json option" where
  "get_prop ob k = map_of ob k"

fun set_key :: "'k \<Rightarrow> 'v \<Rightarrow> ('k \<times> 'v) list \<Rightarrow> ('k \<times> 'v) list" where
  "set_key k v [] = [(k, v)]"
| "set_key k v ((k', v') # kvs) =
     (if k' = k then (k, v) # kvs else (k', v') # set_key k v kvs)"

definition truthy_prop :: "obj \<Rightarrow> string \<Rightarrow> bool" where
  "truthy_prop ob k = (case get_prop ob k of None \<Rightarrow> False | Some v \<Rightarrow> truthy v)"

text \<open>A number inside a template literal: its decimal digits.\<close>

definition digit :: "nat \<Rightarrow> char" where
  "digit d = ''0123456789'' ! d"

function show_nat :: "nat \<Rightarrow> string" where
  "show_nat n = (if n < 10 then [digit n] else show_nat (n div 10) @ [digit (n mod 10)])"
  by pat_completeness auto
termination
  by (relation "measure id") auto

declare show_nat.simps [simp del]

section \<open>The document store\<close>

text \<open>
  \<^verbatim>\<open>db/mongo.js\<close> exports one \<^verbatim>\<open>MongoDatabase\<close> object: the flag \<^verbatim>\<open>isConnected\<close> and
  the database handle. The database is a family of collections, each a sequence of
  documents in insertion order; a collection that was never written is empty.
  \<open>next_oid\<close> is the supply behind \<^verbatim>\<open>new ObjectId()\<close>, and \<open>writes\<close> records every write
  command handed to the store, in order, so that "no write was issued" is a statement
  about the state.
\<close>

datatype store_write =
    WInsertOne string obj
  | WInsertMany string "obj list"
  | WUpdateOne string obj obj
  | WUpdateMany string obj obj
  | WReplaceOne string obj obj
  | WDeleteOne string obj
  | WDeleteMany string obj

record mongo =
  isConnected :: bool
  db :: "string \<Rightarrow> obj list"
  next_oid :: nat
  writes :: "store_write list"

text \<open>
  The store's query language is not part of this repository. Its meaning is a parameter
  of every tool: which documents a filter selects, what a projection keeps, what a
  pipeline computes, what an update document does to a document, and which document an
  upsert creates.
\<close>

record driver =
  q_matches :: "json \<Rightarrow> obj \<Rightarrow> bool"
  q_project :: "obj \<Rightarrow> obj \<Rightarrow> obj"
  q_distinct :: "string \<Rightarrow> obj list \<Rightarrow> json list"
  q_pipeline :: "json list \<Rightarrow> obj list \<Rightarrow> obj list"
  q_update :: "obj \<Rightarrow> obj \<Rightarrow> obj"
  q_upsert :: "obj \<Rightarrow> obj \<Rightarrow> obj"

text \<open>\<^verbatim>\<open>mongoDb.getCollection(name)\<close>: throws unless connected.\<close>

definition getCollection :: "mongo \<Rightarrow> string \<Rightarrow> string + obj list" where
  "getCollection s c =
     (if \<not> isConnected s then Inl ''Database not connected. Call connect() first.''
      else Inr (db s c))"

text \<open>Reading: \<^verbatim>\<open>coll.find(filter)\<close>, \<^verbatim>\<open>cursor.limit(n)\<close> and
  \<^verbatim>\<open>coll.countDocuments(filter)\<close>. A find cursor treats the limit 0 as "no limit"; a
  negative limit \<open>n\<close> asks for one batch of at most \<open>\<bar>n\<bar>\<close> documents, and a batch holds at
  most 101 of them.\<close>

definition find_docs :: "driver \<Rightarrow> obj list \<Rightarrow> json \<Rightarrow> obj list" where
  "find_docs D docs q = filter (q_matches D q) docs"

definition cursor_limit :: "int \<Rightarrow> obj list \<Rightarrow> obj list" where
  "cursor_limit n docs =
     (if n = 0 then docs
      else if n < 0 then take (min (nat \<bar>n\<bar>) 101) docs
      else take (nat n) docs)"

definition countDocuments :: "driver \<Rightarrow> obj list \<Rightarrow> json \<Rightarrow> nat" where
  "countDocuments D docs q = length (find_docs D docs q)"

text \<open>Writing: \<^verbatim>\<open>coll.deleteOne(filter)\<close> removes the first selected document,
  \<^verbatim>\<open>coll.deleteMany(filter)\<close> all of them; both report \<^verbatim>\<open>deletedCount\<close>.\<close>

fun remove_first :: "('a \<Rightarrow> bool) \<Rightarrow> 'a list \<Rightarrow> 'a list" where
  "remove_first P [] = []"
| "remove_first P (x # xs) = (if P x then xs else x # remove_first P xs)"

definition deleteOne :: "driver \<Rightarrow> string \<Rightarrow> obj \<Rightarrow> mongo \<Rightarrow> nat \<times> mongo" where
  "deleteOne D c f s =
     (let docs = db s c
      in (min 1 (countDocuments D docs (JObj f)),
          s\<lparr>db := (db s)(c := remove_first (q_matches D (JObj f)) docs),
            writes := writes s @ [WDeleteOne c f]\<rparr>))"

definition deleteMany :: "driver \<Rightarrow> string \<Rightarrow> obj \<Rightarrow> mongo \<Rightarrow> nat \<times> mongo" where
  "deleteMany D c f s =
     (let docs = db s c
      in (countDocuments D docs (JObj f),
          s\<lparr>db := (db s)(c := filter (\<lambda>d. \<not> q_matches D (JObj f) d) docs),
            writes := writes s @ [WDeleteMany c f]\<rparr>))"

section \<open>Tool outcomes\<close>

text \<open>
  Every tool returns an object with \<^verbatim>\<open>success\<close> and, depending on the tool and the path
  taken, further fields, listed here in the order of the source:
  \<^item> \<open>Fetched\<close>: operation, collection, count, data;
  \<^item> \<open>Inserted\<close>: operation, collection, insertedCount, insertedIds, data;
  \<^item> \<open>NothingUpdated\<close>: operation, collection, matchedCount, modifiedCount, message;
  \<^item> \<open>Updated\<close>: operation, collection, matchedCount, modifiedCount, upsertedCount,
    upsertedId, originalDocuments, updatedDocuments, filter, update;
  \<^item> \<open>NothingDeleted\<close>: operation, collection, deletedCount, message;
  \<^item> \<open>Deleted\<close>: operation, collection, deletedCount, documentsDeleted, filter;
  \<^item> \<open>Failed\<close>: error, operation, collection (\<^verbatim>\<open>success: false\<close>).
\<close>

datatype outcome =
    Fetched string string nat json
  | Inserted string string nat "json list" "obj list"
  | NothingUpdated string string nat nat string
  | Updated string string nat nat nat json "obj list" "obj list" obj obj
  | NothingDeleted string string nat string
  | Deleted string string nat "obj list" obj
  | Failed string string string

fun success :: "outcome \<Rightarrow> bool" where
  "success (Failed e op c) = False"
| "success r = True"

text \<open>The \<^verbatim>\<open>try { ... } catch (error)\<close> around each tool body: a thrown message becomes
  a failure outcome carrying the call's operation and collection.\<close>

definition catch_outcome :: "string \<Rightarrow> string \<Rightarrow> (string + outcome) \<times> 's \<Rightarrow> outcome \<times> 's" where
  "catch_outcome op c r =
     (case r of (Inl msg, s) \<Rightarrow> (Failed msg op c, s) | (Inr out, s) \<Rightarrow> (out, s))"

section \<open>The delete tool (tools/mongoDeleteTool.js)\<close>

text \<open>The parameters are what \<^verbatim>\<open>JSON.parse\<close> made of the model's arguments; nothing checks
  them against the declared schema. \<open>None\<close> is an absent property, for which the
  destructuring default applies. The two flags are kept as the values they are, because
  the code only tests their truthiness (\<^verbatim>\<open>!confirmDeletion\<close>, \<^verbatim>\<open>&& safeMode\<close>).\<close>

record delete_params =
  d_collection :: string
  d_operation :: string
  d_filter :: "obj option"
  confirmDeletion :: "json option"
  safeMode :: "json option"

definition safe_mode_error :: "nat \<Rightarrow> string" where
  "safe_mode_error n =
     ''Safe mode: Cannot delete '' @ show_nat n @
     '' documents at once. Maximum 10 allowed. Set safeMode: false to override.''"

definition MongoDeleteTool_body :: "driver \<Rightarrow> delete_params \<Rightarrow> mongo \<Rightarrow> (string + outcome) \<times> mongo" where
  "MongoDeleteTool_body D p s =
     (let collection = d_collection p;
          operation = d_operation p;
          flt = (case d_filter p of None \<Rightarrow> [] | Some f \<Rightarrow> f);
          confirm = (case confirmDeletion p of None \<Rightarrow> False | Some v \<Rightarrow> truthy v);
          safe = (case safeMode p of None \<Rightarrow> True | Some v \<Rightarrow> truthy v)
      in if \<not> isConnected s then (Inl ''Database not connected'', s)
         else if \<not> confirm then
           (Inl ''Deletion requires explicit confirmation. Set confirmDeletion: true'', s)
         else if length (Object_keys flt) = 0 then
           (Inl ''Empty filter not allowed. To delete all documents, specify a filter like {_id: {$exists: true}}'', s)
         else
           (case getCollection s collection of
              Inl e \<Rightarrow> (Inl e, s)
            | Inr coll \<Rightarrow>
                if operation = ''deleteMany'' \<and> safe \<and> countDocuments D coll (JObj flt) > 10 then
                  (Inl (safe_mode_error (countDocuments D coll (JObj flt))), s)
                else
                  (let documentsToDelete =
                         cursor_limit (if operation = ''deleteOne'' then 1 else 100) (find_docs D coll (JObj flt))
                   in if length documentsToDelete = 0 then (Inr (NothingDeleted operation collection 0 ''No documents matched the filter criteria''), s)
                      else if operation = ''deleteOne'' then
                        (case deleteOne D collection flt s of
                           (n, s') \<Rightarrow> (Inr (Deleted operation collection n (take n documentsToDelete) flt), s'))
                      else if operation = ''deleteMany'' then
                        (case deleteMany D collection flt s of
                           (n, s') \<Rightarrow> (Inr (Deleted operation collection n (take n documentsToDelete) flt), s'))
                      else (Inl (''Unsupported operation: '' @ operation), s))))"

definition MongoDeleteTool_execute :: "driver \<Rightarrow> delete_params \<Rightarrow> mongo \<Rightarrow> outcome \<times> mongo" where
  "MongoDeleteTool_execute D p s =
     catch_outcome (d_operation p) (d_collection p) (MongoDeleteTool_body D p s)"


section \<open>The update tool (tools/mongoUpdateTool.js)\<close>

text \<open>The store's \<^verbatim>\<open>updateOne\<close>, \<^verbatim>\<open>updateMany\<close> and \<^verbatim>\<open>replaceOne\<close>. Each reports
  \<^verbatim>\<open>matchedCount\<close>, \<^verbatim>\<open>modifiedCount\<close>, \<^verbatim>\<open>upsertedCount\<close> and \<^verbatim>\<open>upsertedId\<close>. A document
  created with no \<^verbatim>\<open>_id\<close> (absent or \<^verbatim>\<open>null\<close>) gets one from the ObjectId supply. Before
  it contacts the store the driver throws when an update document does not start with an
  operator key, and when a replacement document does.\<close>

definition hasAtomicOperators :: "obj \<Rightarrow> bool" where
  "hasAtomicOperators u =
     (case Object_keys u of [] \<Rightarrow> False | k # _ \<Rightarrow> (case k of [] \<Rightarrow> False | ch # _ \<Rightarrow> ch = CHR ''$''))"

record update_result =
  matchedCount :: nat
  modifiedCount :: nat
  upsertedCount :: nat
  upsertedId :: json

definition has_own_id :: "obj \<Rightarrow> bool" where
  "has_own_id d = (case get_prop d ''_id'' of None \<Rightarrow> False | Some v \<Rightarrow> v \<noteq> JNull)"

definition ensure_id :: "obj \<Rightarrow> nat \<Rightarrow> obj \<times> nat" where
  "ensure_id d n = (if has_own_id d then (d, n) else (set_key ''_id'' (JOid n) d, Suc n))"

definition doc_id :: "obj \<Rightarrow> json" where
  "doc_id d = (case get_prop d ''_id'' of None \<Rightarrow> JNull | Some v \<Rightarrow> v)"

fun update_first :: "('a \<Rightarrow> bool) \<Rightarrow> ('a \<Rightarrow> 'a) \<Rightarrow> 'a list \<Rightarrow> 'a list" where
  "update_first P g [] = []"
| "update_first P g (x # xs) = (if P x then g x # xs else x # update_first P g xs)"

definition upsert_into :: "driver \<Rightarrow> string \<Rightarrow> obj \<Rightarrow> obj \<Rightarrow> store_write \<Rightarrow> mongo \<Rightarrow> update_result \<times> mongo" where
  "upsert_into D c f u w s =
     (case ensure_id (q_upsert D f u) (next_oid s) of
        (d, n) \<Rightarrow>
          (\<lparr>matchedCount = 0, modifiedCount = 0, upsertedCount = 1, upsertedId = doc_id d\<rparr>,
           s\<lparr>db := (db s)(c := db s c @ [d]), next_oid := n, writes := writes s @ [w]\<rparr>))"

definition store_updateOne :: "driver \<Rightarrow> string \<Rightarrow> obj \<Rightarrow> obj \<Rightarrow> bool \<Rightarrow> mongo \<Rightarrow> update_result \<times> mongo" where
  "store_updateOne D c f u ups s =
     (case find_docs D (db s c) (JObj f) of
        [] \<Rightarrow>
          if ups then upsert_into D c f u (WUpdateOne c f u) s
          else (\<lparr>matchedCount = 0, modifiedCount = 0, upsertedCount = 0, upsertedId = JNull\<rparr>,
                s\<lparr>writes := writes s @ [WUpdateOne c f u]\<rparr>)
      | d # _ \<Rightarrow>
          (\<lparr>matchedCount = 1, modifiedCount = (if q_update D u d = d then 0 else 1),
            upsertedCount = 0, upsertedId = JNull\<rparr>,
           s\<lparr>db := (db s)(c := update_first (q_matches D (JObj f)) (q_update D u) (db s c)),
             writes := writes s @ [WUpdateOne c f u]\<rparr>))"

definition store_updateMany :: "driver \<Rightarrow> string \<Rightarrow> obj \<Rightarrow> obj \<Rightarrow> bool \<Rightarrow> mongo \<Rightarrow> update_result \<times> mongo" where
  "store_updateMany D c f u ups s =
     (case find_docs D (db s c) (JObj f) of
        [] \<Rightarrow>
          if ups then upsert_into D c f u (WUpdateMany c f u) s
          else (\<lparr>matchedCount = 0, modifiedCount = 0, upsertedCount = 0, upsertedId = JNull\<rparr>,
                s\<lparr>writes := writes s @ [WUpdateMany c f u]\<rparr>)
      | d # ds \<Rightarrow>
          (\<lparr>matchedCount = Suc (length ds),
            modifiedCount = length (filter (\<lambda>x. q_update D u x \<noteq> x) (d # ds)),
            upsertedCount = 0, upsertedId = JNull\<rparr>,
           s\<lparr>db := (db s)(c := map (\<lambda>x. if q_matches D (JObj f) x then q_update D u x else x) (db s c)),
             writes := writes s @ [WUpdateMany c f u]\<rparr>))"

text \<open>A replacement keeps the identifier of the document it replaces.\<close>

definition replace_doc :: "obj \<Rightarrow> obj \<Rightarrow> obj" where
  "replace_doc r d = (case get_prop d ''_id'' of None \<Rightarrow> r | Some i \<Rightarrow> set_key ''_id'' i r)"

definition store_replaceOne :: "driver \<Rightarrow> string \<Rightarrow> obj \<Rightarrow> obj \<Rightarrow> bool \<Rightarrow> mongo \<Rightarrow> update_result \<times> mongo" where
  "store_replaceOne D c f r ups s =
     (case find_docs D (db s c) (JObj f) of
        [] \<Rightarrow>
          if ups then
            (case ensure_id r (next_oid s) of
               (d, n) \<Rightarrow>
                 (\<lparr>matchedCount = 0, modifiedCount = 0, upsertedCount = 1, upsertedId = doc_id d\<rparr>,
                  s\<lparr>db := (db s)(c := db s c @ [d]), next_oid := n,
                    writes := writes s @ [WReplaceOne c f r]\<rparr>))
          else (\<lparr>matchedCount = 0, modifiedCount = 0, upsertedCount = 0, upsertedId = JNull\<rparr>,
                s\<lparr>writes := writes s @ [WReplaceOne c f r]\<rparr>)
      | d # _ \<Rightarrow>
          (\<lparr>matchedCount = 1, modifiedCount = (if replace_doc r d = d then 0 else 1),
            upsertedCount = 0, upsertedId = JNull\<rparr>,
           s\<lparr>db := (db s)(c := update_first (q_matches D (JObj f)) (replace_doc r) (db s c)),
             writes := writes s @ [WReplaceOne c f r]\<rparr>))"

definition updateOne :: "driver \<Rightarrow> string \<Rightarrow> obj \<Rightarrow> obj \<Rightarrow> bool \<Rightarrow> mongo \<Rightarrow> (string + update_result) \<times> mongo" where
  "updateOne D c f u ups s =
     (if \<not> hasAtomicOperators u then (Inl ''Update document requires atomic operators'', s)
      else (case store_updateOne D c f u ups s of (res, s') \<Rightarrow> (Inr res, s')))"

definition updateMany :: "driver \<Rightarrow> string \<Rightarrow> obj \<Rightarrow> obj \<Rightarrow> bool \<Rightarrow> mongo \<Rightarrow> (string + update_result) \<times> mongo" where
  "updateMany D c f u ups s =
     (if \<not> hasAtomicOperators u then (Inl ''Update document requires atomic operators'', s)
      else (case store_updateMany D c f u ups s of (res, s') \<Rightarrow> (Inr res, s')))"

definition replaceOne :: "driver \<Rightarrow> string \<Rightarrow> obj \<Rightarrow> obj \<Rightarrow> bool \<Rightarrow> mongo \<Rightarrow> (string + update_result) \<times> mongo" where
  "replaceOne D c f r ups s =
     (if hasAtomicOperators r then (Inl ''Replacement document must not contain atomic operators'', s)
      else (case store_replaceOne D c f r ups s of (res, s') \<Rightarrow> (Inr res, s')))"

record update_options =
  upsert :: "bool option"
  allowBulkUpdate :: "bool option"

record update_params =
  u_collection :: string
  u_operation :: string
  u_filter :: "obj option"
  u_update :: obj
  u_options :: "update_options option"

definition options_of :: "update_params \<Rightarrow> update_options" where
  "options_of p = (case u_options p of None \<Rightarrow> \<lparr>upsert = None, allowBulkUpdate = None\<rparr> | Some x \<Rightarrow> x)"

definition flag :: "bool option \<Rightarrow> bool" where
  "flag b = (case b of None \<Rightarrow> False | Some v \<Rightarrow> v)"

definition startsWith_dollar :: "string \<Rightarrow> bool" where
  "startsWith_dollar k = (case k of [] \<Rightarrow> False | c # _ \<Rightarrow> c = CHR ''$'')"

definition bulk_update_error :: "nat \<Rightarrow> string" where
  "bulk_update_error n =
     ''Attempting to update '' @ show_nat n @
     '' documents. Add allowBulkUpdate: true in options to proceed.''"

text \<open>The common tail of the three write branches: a throw of the driver leaves the
  body; otherwise re-read the documents and build the success object.\<close>

definition update_report ::
  "driver \<Rightarrow> string \<Rightarrow> string \<Rightarrow> obj \<Rightarrow> obj \<Rightarrow> obj list \<Rightarrow> (string + update_result) \<times> mongo \<Rightarrow> (string + outcome) \<times> mongo" where
  "update_report D operation collection flt upd documentsToUpdate rs =
     (case rs of
        (Inl e, s') \<Rightarrow> (Inl e, s')
      | (Inr res, s') \<Rightarrow>
          (let updatedDocuments =
                 cursor_limit (if operation = ''updateOne'' then 1 else 10)
                   (find_docs D (db s' collection) (JObj flt))
           in (Inr (Updated operation collection (matchedCount res) (modifiedCount res)
                      (upsertedCount res) (upsertedId res)
                      (take 10 documentsToUpdate) updatedDocuments flt upd), s')))"

definition MongoUpdateTool_body :: "driver \<Rightarrow> update_params \<Rightarrow> mongo \<Rightarrow> (string + outcome) \<times> mongo" where
  "MongoUpdateTool_body D p s =
     (let collection = u_collection p;
          operation = u_operation p;
          upd = u_update p;
          options = options_of p
      in if \<not> isConnected s then (Inl ''Database not connected'', s)
         else
           (case u_filter p of
              None \<Rightarrow> (Inl ''Filter is required and cannot be empty for update operations'', s)
            | Some flt \<Rightarrow>
                if length (Object_keys flt) = 0 then
                  (Inl ''Filter is required and cannot be empty for update operations'', s)
                else
                  (case getCollection s collection of
                     Inl e \<Rightarrow> (Inl e, s)
                   | Inr coll \<Rightarrow>
                       (let documentsToUpdate =
                              cursor_limit (if operation = ''updateOne'' then 1 else 100)
                                (find_docs D coll (JObj flt))
                        in if length documentsToUpdate = 0 \<and> \<not> flag (upsert options) then
                             (Inr (NothingUpdated operation collection 0 0 ''No documents matched the filter criteria''), s)
                           else if operation = ''updateOne'' then
                             update_report D operation collection flt upd documentsToUpdate
                               (updateOne D collection flt upd (flag (upsert options)) s)
                           else if operation = ''updateMany'' then
                             (if length documentsToUpdate > 50 \<and> \<not> flag (allowBulkUpdate options) then
                                (Inl (bulk_update_error (length documentsToUpdate)), s)
                              else
                                update_report D operation collection flt upd documentsToUpdate
                                  (updateMany D collection flt upd (flag (upsert options)) s))
                           else if operation = ''replaceOne'' then
                             (if list_ex startsWith_dollar (Object_keys upd) then
                                (Inl ''replaceOne operation cannot use update operators ($set, $inc, etc.). Use updateOne instead.'', s)
                              else
                                update_report D operation collection flt upd documentsToUpdate
                                  (replaceOne D collection flt upd (flag (upsert options)) s))
                           else (Inl (''Unsupported operation: '' @ operation), s)))))"

definition MongoUpdateTool_execute :: "driver \<Rightarrow> update_params \<Rightarrow> mongo \<Rightarrow> outcome \<times> mongo" where
  "MongoUpdateTool_execute D p s =
     catch_outcome (u_operation p) (u_collection p) (MongoUpdateTool_body D p s)"

section \<open>The query tool (tools/mongoTool.js)\<close>

record fetch_params =
  f_collection :: string
  f_operation :: string
  f_query :: "json option"
  f_limit :: "int option"
  f_fields :: "obj option"
  f_field :: "string option"

text \<open>\<^verbatim>\<open>Array.isArray(result) ? result.length : (result ? 1 : 0)\<close>.\<close>

definition result_count :: "json \<Rightarrow> nat" where
  "result_count r = (case r of JArr xs \<Rightarrow> length xs | _ \<Rightarrow> if truthy r then 1 else 0)"

text \<open>\<^verbatim>\<open>coll.aggregate(pipeline).limit(n).toArray()\<close>: the limit becomes a final
  \<^verbatim>\<open>$limit\<close> stage, which the store rejects unless it is positive.\<close>

definition aggregate_limit :: "driver \<Rightarrow> obj list \<Rightarrow> json list \<Rightarrow> int \<Rightarrow> string + obj list" where
  "aggregate_limit D docs stages n =
     (if n \<le> 0 then Inl ''the limit must be positive''
      else Inr (take (nat n) (q_pipeline D stages docs)))"

definition MongoTool_body :: "driver \<Rightarrow> fetch_params \<Rightarrow> mongo \<Rightarrow> (string + outcome) \<times> mongo" where
  "MongoTool_body D p s =
     (let collection = f_collection p;
          operation = f_operation p;
          query = (case f_query p of None \<Rightarrow> JObj [] | Some q \<Rightarrow> q);
          lim = (case f_limit p of None \<Rightarrow> 10 | Some n \<Rightarrow> n);
          fields = (case f_fields p of None \<Rightarrow> [] | Some x \<Rightarrow> x);
          respond = (\<lambda>result. (Inr (Fetched operation collection (result_count result) result), s))
      in if \<not> isConnected s then (Inl ''Database not connected'', s)
         else
           (case getCollection s collection of
              Inl e \<Rightarrow> (Inl e, s)
            | Inr coll \<Rightarrow>
                if operation = ''find'' then
                  respond (JArr (map JObj
                    (cursor_limit (min lim 100) (map (q_project D fields) (find_docs D coll query)))))
                else if operation = ''findOne'' then
                  respond (case find_docs D coll query of
                          [] \<Rightarrow> JNull
                        | d # _ \<Rightarrow> JObj (q_project D fields d))
                else if operation = ''count'' then
                  respond (JNum (int (countDocuments D coll query)))
                else if operation = ''distinct'' then
                  (case f_field p of
                     None \<Rightarrow> (Inl ''Field parameter required for distinct operation'', s)
                   | Some fld \<Rightarrow>
                       if fld = [] then (Inl ''Field parameter required for distinct operation'', s)
                       else respond (JArr (q_distinct D fld (find_docs D coll query))))
                else if operation = ''aggregate'' then
                  (case query of
                     JArr stages \<Rightarrow>
                       (case aggregate_limit D coll stages lim of
                          Inl e \<Rightarrow> (Inl e, s)
                        | Inr docs \<Rightarrow> respond (JArr (map JObj docs)))
                   | _ \<Rightarrow> (Inl ''Query must be an aggregation pipeline array for aggregate operation'', s))
                else (Inl (''Unsupported operation: '' @ operation), s)))"

definition MongoTool_execute :: "driver \<Rightarrow> fetch_params \<Rightarrow> mongo \<Rightarrow> outcome \<times> mongo" where
  "MongoTool_execute D p s =
     catch_outcome (f_operation p) (f_collection p) (MongoTool_body D p s)"


section \<open>The insert tool (tools/mongoInsertTool.js)\<close>

text \<open>The \<^verbatim>\<open>data\<close> parameter is one document or an array of documents.\<close>

datatype insert_data = Document obj | Documents "obj list"

record insert_params =
  i_collection :: string
  i_operation :: string
  i_data :: insert_data
  generateId :: "bool option"

text \<open>\<^verbatim>\<open>doc._id ? doc : { ...doc, _id: new ObjectId() }\<close>, with the ObjectId supply threaded
  through; \<open>thread\<close> is \<^verbatim>\<open>Array.map\<close> with that supply.\<close>

definition generate_id :: "obj \<Rightarrow> nat \<Rightarrow> obj \<times> nat" where
  "generate_id doc n =
     (if truthy_prop doc ''_id'' then (doc, n) else (set_key ''_id'' (JOid n) doc, Suc n))"

fun thread :: "('a \<Rightarrow> nat \<Rightarrow> 'b \<times> nat) \<Rightarrow> 'a list \<Rightarrow> nat \<Rightarrow> 'b list \<times> nat" where
  "thread g [] n = ([], n)"
| "thread g (x # xs) n =
     (case g x n of (y, m) \<Rightarrow> (case thread g xs m of (ys, k) \<Rightarrow> (y # ys, k)))"

text \<open>The store's \<^verbatim>\<open>insertOne\<close> and \<^verbatim>\<open>insertMany\<close>. The driver gives an identifier to a
  document that has none, and the store refuses an identifier that the collection
  already holds; an ordered \<^verbatim>\<open>insertMany\<close> keeps the documents inserted before the one
  it refuses. The driver throws on an empty batch before it contacts the store.\<close>

definition has_id :: "obj list \<Rightarrow> json \<Rightarrow> bool" where
  "has_id docs i = list_ex (\<lambda>d. doc_id d = i) docs"

fun insert_all :: "obj list \<Rightarrow> obj list \<Rightarrow> string option \<times> obj list" where
  "insert_all coll [] = (None, coll)"
| "insert_all coll (d # ds) =
     (if has_id coll (doc_id d) then (Some ''E11000 duplicate key error'', coll)
      else insert_all (coll @ [d]) ds)"

definition insertOne :: "string \<Rightarrow> obj \<Rightarrow> mongo \<Rightarrow> (string + json \<times> obj) \<times> mongo" where
  "insertOne c doc s =
     (case ensure_id doc (next_oid s) of
        (d, n) \<Rightarrow>
          (case insert_all (db s c) [d] of
             (err, coll') \<Rightarrow>
               (case err of None \<Rightarrow> Inr (doc_id d, d) | Some e \<Rightarrow> Inl e,
                s\<lparr>db := (db s)(c := coll'), next_oid := n,
                  writes := writes s @ [WInsertOne c d]\<rparr>)))"

definition insertMany :: "string \<Rightarrow> obj list \<Rightarrow> mongo \<Rightarrow> (string + json list \<times> obj list) \<times> mongo" where
  "insertMany c docs s =
     (if docs = [] then (Inl ''Invalid BulkOperation, Batch cannot be empty'', s)
      else
        (case thread ensure_id docs (next_oid s) of
           (ds, n) \<Rightarrow>
             (case insert_all (db s c) ds of
                (err, coll') \<Rightarrow>
                  (case err of None \<Rightarrow> Inr (map doc_id ds, ds) | Some e \<Rightarrow> Inl e,
                   s\<lparr>db := (db s)(c := coll'), next_oid := n,
                     writes := writes s @ [WInsertMany c ds]\<rparr>))))"

definition MongoInsertTool_body :: "insert_params \<Rightarrow> mongo \<Rightarrow> (string + outcome) \<times> mongo" where
  "MongoInsertTool_body p s =
     (let collection = i_collection p;
          operation = i_operation p;
          gen = (case generateId p of None \<Rightarrow> True | Some b \<Rightarrow> b)
      in if \<not> isConnected s then (Inl ''Database not connected'', s)
         else
           (case getCollection s collection of
              Inl e \<Rightarrow> (Inl e, s)
            | Inr coll \<Rightarrow>
                if operation = ''insertOne'' then
                  (case i_data p of
                     Documents ds \<Rightarrow> (Inl ''Use insertMany operation for array data'', s)
                   | Document doc \<Rightarrow>
                       (case (if gen then generate_id doc (next_oid s) else (doc, next_oid s)) of
                          (processedData, n) \<Rightarrow>
                            (case insertOne collection processedData (s\<lparr>next_oid := n\<rparr>) of
                               (Inl e, s') \<Rightarrow> (Inl e, s')
                             | (Inr (insertedId, stored), s') \<Rightarrow>
                                 (Inr (Inserted operation collection 1 [insertedId] [stored]), s'))))
                else if operation = ''insertMany'' then
                  (case i_data p of
                     Document doc \<Rightarrow> (Inl ''insertMany requires an array of documents'', s)
                   | Documents ds \<Rightarrow>
                       if length ds > 100 then (Inl ''Cannot insert more than 100 documents at once'', s)
                       else
                         (case (if gen then thread generate_id ds (next_oid s) else (ds, next_oid s)) of
                            (processedData, n) \<Rightarrow>
                              (case insertMany collection processedData (s\<lparr>next_oid := n\<rparr>) of
                                 (Inl e, s') \<Rightarrow> (Inl e, s')
                               | (Inr (insertedIds, stored), s') \<Rightarrow>
                                   (Inr (Inserted operation collection (length insertedIds) insertedIds stored), s'))))
                else (Inl (''Unsupported operation: '' @ operation), s)))"

definition MongoInsertTool_execute :: "insert_params \<Rightarrow> mongo \<Rightarrow> outcome \<times> mongo" where
  "MongoInsertTool_execute p s =
     catch_outcome (i_operation p) (i_collection p) (MongoInsertTool_body p s)"

section \<open>The agent (agent.js)\<close>

text \<open>
  A tool is an object with a name, a description, a parameter schema and \<^verbatim>\<open>execute\<close>,
  which acts on the world \<open>'w\<close> the tools share and either returns a result object or
  throws a message. The registry is a JavaScript \<^verbatim>\<open>Map\<close> from names to tools, kept here
  in insertion order.
\<close>

record 'w tool =
  name :: string
  description :: string
  parameters :: json
  execute :: "json \<Rightarrow> 'w \<Rightarrow> (string + json) \<times> 'w"

record tool_call =
  tc_id :: string
  tc_name :: string
  tc_arguments :: string

datatype role = System | User | Assistant | Tool

record message =
  m_role :: role
  m_content :: "string option"
  m_tool_calls :: "tool_call list option"
  m_tool_call_id :: "string option"

record llm_response =
  r_content :: "string option"
  r_tool_calls :: "tool_call list option"

record tool_result =
  tool_call_id :: string
  tool_name :: string
  result :: json

record tool_info =
  ti_name :: string
  ti_description :: string
  ti_parameters :: json

record 'w agent =
  tools :: "(string \<times> 'w tool) list"
  conversationHistory :: "message list"

text \<open>What the agent calls but does not define: \<^verbatim>\<open>JSON.parse\<close> (which may throw),
  \<^verbatim>\<open>JSON.stringify\<close>, and the model endpoint behind \<^verbatim>\<open>LLMClient.sendMessage\<close>, which
  answers a message log (and the advertised tools, when given) or throws.\<close>

record env =
  JSON_parse :: "string \<Rightarrow> string + json"
  JSON_stringify :: "json \<Rightarrow> string"
  sendMessage :: "message list \<Rightarrow> tool_info list option \<Rightarrow> string + llm_response"

definition Map_has :: "('k \<times> 'v) list \<Rightarrow> 'k \<Rightarrow> bool" where
  "Map_has m k = (map_of m k \<noteq> None)"

definition Map_get :: "('k \<times> 'v) list \<Rightarrow> 'k \<Rightarrow> 'v option" where
  "Map_get m k = map_of m k"

definition registerTool :: "'w tool \<Rightarrow> 'w agent \<Rightarrow> 'w agent" where
  "registerTool t a = a\<lparr>tools := set_key (name t) t (tools a)\<rparr>"

definition getAvailableTools :: "'w agent \<Rightarrow> 'w tool list" where
  "getAvailableTools a = map snd (tools a)"

definition formatTools :: "'w tool list \<Rightarrow> tool_info list" where
  "formatTools ts =
     map (\<lambda>t. \<lparr>ti_name = name t, ti_description = description t, ti_parameters = parameters t\<rparr>) ts"

definition chatWithTools :: "env \<Rightarrow> message list \<Rightarrow> 'w tool list \<Rightarrow> string + llm_response" where
  "chatWithTools E messages availableTools = sendMessage E messages (Some (formatTools availableTools))"

definition failure_result :: "string \<Rightarrow> json" where
  "failure_result msg = JObj [(''success'', JBool False), (''error'', JStr msg)]"

text \<open>One iteration of the loop in \<^verbatim>\<open>executeToolCalls\<close>: the \<^verbatim>\<open>try\<close> block and its
  \<^verbatim>\<open>catch\<close>, each pushing exactly one result.\<close>

definition caught :: "tool_call \<Rightarrow> string \<Rightarrow> tool_result" where
  "caught toolCall msg =
     \<lparr>tool_call_id = tc_id toolCall, tool_name = tc_name toolCall, result = failure_result msg\<rparr>"

definition executeToolCall :: "env \<Rightarrow> (string \<times> 'w tool) list \<Rightarrow> tool_call \<Rightarrow> 'w \<Rightarrow> tool_result \<times> 'w" where
  "executeToolCall E reg toolCall w =
     (let toolName = tc_name toolCall
      in case JSON_parse E (tc_arguments toolCall) of
           Inl e \<Rightarrow> (caught toolCall e, w)
         | Inr toolParams \<Rightarrow>
             if \<not> Map_has reg toolName then (caught toolCall (''Unknown tool: '' @ toolName), w)
             else
               (case Map_get reg toolName of
                  None \<Rightarrow> (caught toolCall (''Unknown tool: '' @ toolName), w)
                | Some t \<Rightarrow>
                    (case execute t toolParams w of
                       (Inl e, w') \<Rightarrow> (caught toolCall e, w')
                     | (Inr r, w') \<Rightarrow>
                         (\<lparr>tool_call_id = tc_id toolCall, tool_name = toolName, result = r\<rparr>, w'))))"

fun executeToolCalls :: "env \<Rightarrow> (string \<times> 'w tool) list \<Rightarrow> tool_call list \<Rightarrow> 'w \<Rightarrow> tool_result list \<times> 'w" where
  "executeToolCalls E reg [] w = ([], w)"
| "executeToolCalls E reg (toolCall # rest) w =
     (case executeToolCall E reg toolCall w of
        (r, w') \<Rightarrow> (case executeToolCalls E reg rest w' of (rs, w'') \<Rightarrow> (r # rs, w'')))"

definition tool_message :: "env \<Rightarrow> tool_result \<Rightarrow> message" where
  "tool_message E toolResult =
     \<lparr>m_role = Tool, m_content = Some (JSON_stringify E (result toolResult)),
      m_tool_calls = None, m_tool_call_id = Some (tool_call_id toolResult)\<rparr>"

definition text_message :: "role \<Rightarrow> string option \<Rightarrow> message" where
  "text_message r c = \<lparr>m_role = r, m_content = c, m_tool_calls = None, m_tool_call_id = None\<rparr>"

definition calls_message :: "llm_response \<Rightarrow> tool_call list \<Rightarrow> message" where
  "calls_message response calls =
     \<lparr>m_role = Assistant,
      m_content = Some (case r_content response of None \<Rightarrow> [] | Some c \<Rightarrow> c),
      m_tool_calls = Some calls, m_tool_call_id = None\<rparr>"

text \<open>The result of a turn: the success object with \<^verbatim>\<open>response\<close>, \<^verbatim>\<open>toolsUsed\<close> and
  \<^verbatim>\<open>toolResults\<close>, or the failure object with the error message.\<close>

datatype turn = TurnOk "string option" "string list" "json list" | TurnFailed string

definition newline :: string where
  "newline = [CHR 0x0A]"

definition systemPrompt :: string where
  "systemPrompt =
     ''You are a helpful AI agent with access to MongoDB database tools. '' @ newline @
     ''You can help users query, insert, update, and delete data from databases.'' @ newline @
     newline @
     ''Available tools:'' @ newline @
     ''- fetch_mongodb_data: Query MongoDB collections to find users, count records, or get specific data'' @ newline @
     ''- insert_mongodb_data: Add new documents to MongoDB collections (single or multiple)'' @ newline @
     ''- update_mongodb_data: Update existing documents in MongoDB collections'' @ newline @
     ''- delete_mongodb_data: Delete documents from MongoDB collections (requires confirmation)'' @ newline @
     newline @
     ''When users ask about:'' @ newline @
     ''- Finding/searching data: Use fetch_mongodb_data'' @ newline @
     ''- Adding/creating new records: Use insert_mongodb_data  '' @ newline @
     ''- Updating/modifying existing data: Use update_mongodb_data'' @ newline @
     ''- Removing/deleting records: Use delete_mongodb_data (be careful and ask for confirmation)'' @ newline @
     newline @
     ''Always be helpful and explain what you found or did in a clear, human-friendly way.'' @ newline @
     ''For destructive operations (delete/update), be extra careful and explain what will happen.'' @ newline @
     ''Always be concise but informative in your responses.''"

text \<open>\<^verbatim>\<open>processMessage(userMessage)\<close>; its second parameter \<^verbatim>\<open>conversationId\<close> is never read.
  A throw of either model call is caught by the surrounding \<^verbatim>\<open>try\<close> and ends the turn
  with the failure object; what was pushed to the history before stays there.\<close>

definition processMessage ::
  "env \<Rightarrow> string \<Rightarrow> 'w agent \<Rightarrow> 'w \<Rightarrow> turn \<times> 'w agent \<times> 'w" where
  "processMessage E userMessage a w =
     (let a1 = a\<lparr>conversationHistory := conversationHistory a @ [text_message User (Some userMessage)]\<rparr>;
          messages = text_message System (Some systemPrompt) # conversationHistory a1
      in case chatWithTools E messages (getAvailableTools a1) of
           Inl e \<Rightarrow> (TurnFailed e, a1, w)
         | Inr response \<Rightarrow>
             (case r_tool_calls response of
                None \<Rightarrow>
                  (TurnOk (r_content response) [] [],
                   a1\<lparr>conversationHistory := conversationHistory a1 @ [text_message Assistant (r_content response)]\<rparr>,
                   w)
              | Some calls \<Rightarrow>
                  if length calls > 0 then
                    (case executeToolCalls E (tools a1) calls w of
                       (toolResults, w') \<Rightarrow>
                         (let a2 = a1\<lparr>conversationHistory := conversationHistory a1 @
                                    [calls_message response calls]\<rparr>;
                              a3 = a2\<lparr>conversationHistory := conversationHistory a2 @ map (tool_message E) toolResults\<rparr>;
                              finalMessages =
                                text_message System
                                  (Some (systemPrompt @ newline @ newline @
                                     ''Based on the tool results, provide a helpful response to the user.''))
                                # conversationHistory a3
                          in case sendMessage E finalMessages None of
                               Inl e \<Rightarrow> (TurnFailed e, a3, w')
                             | Inr finalResponse \<Rightarrow>
                                 (TurnOk (r_content finalResponse) (map tc_name calls) (map result toolResults),
                                  a3\<lparr>conversationHistory := conversationHistory a3 @
                                       [text_message Assistant (r_content finalResponse)]\<rparr>,
                                  w')))
                  else
                    (TurnOk (r_content response) [] [],
                     a1\<lparr>conversationHistory := conversationHistory a1 @ [text_message Assistant (r_content response)]\<rparr>,
                     w)))"

definition clearHistory :: "'w agent \<Rightarrow> 'w agent" where
  "clearHistory a = a\<lparr>conversationHistory := []\<rparr>"

definition getHistory :: "'w agent \<Rightarrow> message list" where
  "getHistory a = conversationHistory a"

text \<open>\<^verbatim>\<open>getToolInfo\<close>: one keyed write into the result object per registry entry, in
  iteration order. The result is read by key (\<^verbatim>\<open>toolInfo[name]\<close>); the order in which a
  JavaScript object enumerates its keys is not modelled.\<close>

definition getToolInfo :: "'w agent \<Rightarrow> (string \<times> tool_info) list" where
  "getToolInfo a =
     fold (\<lambda>(nm, t) toolInfo.
             set_key nm \<lparr>ti_name = name t, ti_description = description t, ti_parameters = parameters t\<rparr> toolInfo)
          (tools a) []"


section \<open>A small store to run the tools on\<close>

text \<open>
  An instance of the query language, used where the tools are run on concrete inputs: a
  filter object selects the documents that carry each of its fields with the same value,
  projections and pipelines keep every document as it is, and an update document writes
  the fields listed under \<^verbatim>\<open>$set\<close>.
\<close>

definition field_match :: "json \<Rightarrow> obj \<Rightarrow> bool" where
  "field_match q d =
     (case q of JObj kvs \<Rightarrow> list_all (\<lambda>kv. get_prop d (fst kv) = Some (snd kv)) kvs | _ \<Rightarrow> False)"

definition set_fields :: "obj \<Rightarrow> obj \<Rightarrow> obj" where
  "set_fields u d =
     (case get_prop u ''$set'' of
        Some (JObj kvs) \<Rightarrow> fold (\<lambda>kv acc. set_key (fst kv) (snd kv) acc) kvs d
      | _ \<Rightarrow> d)"

definition example_driver :: driver where
  "example_driver =
     \<lparr>q_matches = field_match,
      q_project = (\<lambda>fields d. d),
      q_distinct = (\<lambda>fld docs. remdups (map (\<lambda>d. case get_prop d fld of None \<Rightarrow> JNull | Some v \<Rightarrow> v) docs)),
      q_pipeline = (\<lambda>stages docs. docs),
      q_update = set_fields,
      q_upsert = (\<lambda>f u. set_fields u f)\<rparr>"

definition developer :: obj where
  "developer = [(''role'', JStr ''Developer''), (''isActive'', JBool False)]"

text \<open>A connected store whose collection \<^verbatim>\<open>users\<close> holds \<open>n\<close> copies of one document.\<close>

definition users_store :: "nat \<Rightarrow> mongo" where
  "users_store n =
     \<lparr>isConnected = True,
      db = (\<lambda>c. if c = ''users'' then replicate n developer else []),
      next_oid = 0,
      writes = []\<rparr>"

definition delete_inactive :: delete_params where
  "delete_inactive =
     \<lparr>d_collection = ''users'', d_operation = ''deleteMany'',
      d_filter = Some [(''isActive'', JBool False)],
      confirmDeletion = Some (JBool True), safeMode = None\<rparr>"

definition activate_managers :: update_params where
  "activate_managers =
     \<lparr>u_collection = ''users'', u_operation = ''updateMany'',
      u_filter = Some [(''role'', JStr ''Manager'')],
      u_update = [(''$set'', JObj [(''isActive'', JBool True)])],
      u_options = None\<rparr>"

definition find_unlimited :: fetch_params where
  "find_unlimited =
     \<lparr>f_collection = ''users'', f_operation = ''find'', f_query = None,
      f_limit = Some 0, f_fields = None, f_field = None\<rparr>"

definition aggregate_150 :: fetch_params where
  "aggregate_150 =
     \<lparr>f_collection = ''users'', f_operation = ''aggregate'', f_query = Some (JArr []),
      f_limit = Some 150, f_fields = None, f_field = None\<rparr>"

text \<open>Two tools over a world that counts calls: one returns a result, one throws. A
  third tool carries the first one's name with another description and schema.\<close>

definition counter_tool :: "nat tool" where
  "counter_tool =
     \<lparr>name = ''count'', description = ''Counts its calls'',
      parameters = JObj [(''type'', JStr ''object'')],
      execute = (\<lambda>params w. (Inr (JObj [(''success'', JBool True), (''count'', JNum (int (Suc w)))]), Suc w))\<rparr>"

definition failing_tool :: "nat tool" where
  "failing_tool =
     \<lparr>name = ''explode'', description = ''Always throws'',
      parameters = JObj [(''type'', JStr ''object'')],
      execute = (\<lambda>params w. (Inl ''boom'', w))\<rparr>"

definition counter_tool_v2 :: "nat tool" where
  "counter_tool_v2 =
     \<lparr>name = ''count'', description = ''Counts its calls twice'',
      parameters = JObj [(''type'', JStr ''object''), (''required'', JArr [])],
      execute = (\<lambda>params w. (Inr (JObj [(''success'', JBool True)]), Suc (Suc w)))\<rparr>"

definition new_agent :: "nat agent" where
  "new_agent = \<lparr>tools = [], conversationHistory = []\<rparr>"

definition two_tool_agent :: "nat agent" where
  "two_tool_agent = registerTool counter_tool (registerTool failing_tool new_agent)"

text \<open>A scripted environment: only \<^verbatim>\<open>{}\<close> parses, results are rendered by their success
  flag, and the model asks for four tool calls when tools are advertised and answers in
  text otherwise. The four calls: a tool that throws, a name that is not registered,
  arguments that do not parse, and a call that succeeds.\<close>

definition call_explode :: tool_call where
  "call_explode = \<lparr>tc_id = ''call_1'', tc_name = ''explode'', tc_arguments = ''{}''\<rparr>"

definition call_missing :: tool_call where
  "call_missing = \<lparr>tc_id = ''call_2'', tc_name = ''missing'', tc_arguments = ''{}''\<rparr>"

definition call_bad_arguments :: tool_call where
  "call_bad_arguments = \<lparr>tc_id = ''call_3'', tc_name = ''count'', tc_arguments = ''{''\<rparr>"

definition call_count :: tool_call where
  "call_count = \<lparr>tc_id = ''call_4'', tc_name = ''count'', tc_arguments = ''{}''\<rparr>"

definition four_calls :: "tool_call list" where
  "four_calls = [call_explode, call_missing, call_bad_arguments, call_count]"

definition render_flag :: "json \<Rightarrow> string" where
  "render_flag r =
     (case r of
        JObj kvs \<Rightarrow> (if get_prop kvs ''success'' = Some (JBool True) then ''success'' else ''failure'')
      | _ \<Rightarrow> ''value'')"

definition scripted_env :: env where
  "scripted_env =
     \<lparr>JSON_parse = (\<lambda>s. if s = ''{}'' then Inr (JObj []) else Inl ''Unexpected end of JSON input''),
      JSON_stringify = render_flag,
      sendMessage = (\<lambda>messages advertised.
        case advertised of
          Some ts \<Rightarrow> Inr \<lparr>r_content = None, r_tool_calls = Some four_calls\<rparr>
        | None \<Rightarrow> Inr \<lparr>r_content = Some ''Done.'', r_tool_calls = None\<rparr>)\<rparr>"

definition chat_env :: env where
  "chat_env = scripted_env\<lparr>sendMessage := (\<lambda>messages advertised.
     Inr \<lparr>r_content = Some ''Hello.'', r_tool_calls = None\<rparr>)\<rparr>"

text \<open>Three documents to insert: one with its own identifier, one with none, one whose
  \<^verbatim>\<open>_id\<close> is the falsy value 0.\<close>

definition john :: obj where
  "john = [(''_id'', JStr ''user_001''), (''name'', JStr ''John Doe'')]"

definition jane :: obj where
  "jane = [(''name'', JStr ''Jane Roe'')]"

definition joe :: obj where
  "joe = [(''_id'', JNum 0), (''name'', JStr ''Joe Bloggs'')]"

definition insert_with_own_id :: insert_params where
  "insert_with_own_id =
     \<lparr>i_collection = ''users'', i_operation = ''insertOne'', i_data = Document john,
      generateId = Some True\<rparr>"

definition insert_three :: insert_params where
  "insert_three =
     \<lparr>i_collection = ''users'', i_operation = ''insertMany'', i_data = Documents [john, jane, joe],
      generateId = None\<rparr>"

section \<open>Properties of the delete and update tools\<close>

lemma catch_outcome_simps:
  "catch_outcome op c (Inl msg, s) = (Failed msg op c, s)"
  "catch_outcome op c (Inr out, s) = (out, s)"
  by (simp_all add: catch_outcome_def)











lemma no_managers:
  "find_docs example_driver (db (users_store n) ''users'') (JObj [(''role'', JStr ''Manager'')]) = []"
  by (simp add: find_docs_def users_store_def example_driver_def field_match_def developer_def
      get_prop_def)

text \<open>
  Claim C4. An empty filter object makes the update tool fail for every operation
  (\<^verbatim>\<open>updateOne\<close>, \<^verbatim>\<open>updateMany\<close>, \<^verbatim>\<open>replaceOne\<close> or any other string), and makes the
  delete tool fail for every operation once the deletion is confirmed. In both tools the
  store is left exactly as it was: nothing is written. On a connected store the failure is
  the filter check's own message.
\<close>

theorem empty_filter_rejected:
  "(u_filter p = Some [] \<longrightarrow>
      MongoUpdateTool_execute D p s =
        (Failed (if isConnected s
                 then ''Filter is required and cannot be empty for update operations''
                 else ''Database not connected'')
           (u_operation p) (u_collection p), s))
   \<and> (confirmDeletion q = Some (JBool True) \<and> d_filter q = Some [] \<longrightarrow>
      MongoDeleteTool_execute D q s =
        (Failed (if isConnected s
                 then ''Empty filter not allowed. To delete all documents, specify a filter like {_id: {$exists: true}}''
                 else ''Database not connected'')
           (d_operation q) (d_collection q), s))"
  by (simp add: MongoUpdateTool_execute_def MongoUpdateTool_body_def MongoDeleteTool_execute_def
      MongoDeleteTool_body_def catch_outcome_simps Object_keys_def)

theorem empty_filter_rejected_witness:
  "MongoUpdateTool_execute example_driver (activate_managers\<lparr>u_filter := Some []\<rparr>) (users_store 3) =
     (Failed ''Filter is required and cannot be empty for update operations'' ''updateMany'' ''users'',
      users_store 3)
   \<and> MongoDeleteTool_execute example_driver (delete_inactive\<lparr>d_filter := Some []\<rparr>) (users_store 3) =
     (Failed ''Empty filter not allowed. To delete all documents, specify a filter like {_id: {$exists: true}}''
        ''deleteMany'' ''users'', users_store 3)"
  using empty_filter_rejected [of "activate_managers\<lparr>u_filter := Some []\<rparr>" example_driver
      "users_store 3" "delete_inactive\<lparr>d_filter := Some []\<rparr>"]
  by (simp add: activate_managers_def delete_inactive_def users_store_def)

text \<open>
  Claim C10. On a connected store, an update call whose non-empty filter selects no
  document and whose options do not enable upsert returns the success outcome with
  \<^verbatim>\<open>matchedCount\<close> and \<^verbatim>\<open>modifiedCount\<close> 0, and a confirmed delete call whose non-empty
  filter selects no document returns the success outcome with \<^verbatim>\<open>deletedCount\<close> 0. In
  both cases the store afterwards is the store before: no update or delete was issued
  and every collection is unchanged.
\<close>

theorem no_match_no_write:
  "(isConnected s \<and> u_filter p = Some f \<and> f \<noteq> [] \<and>
    find_docs D (db s (u_collection p)) (JObj f) = [] \<and> \<not> flag (upsert (options_of p)) \<longrightarrow>
      MongoUpdateTool_execute D p s =
        (NothingUpdated (u_operation p) (u_collection p) 0 0 ''No documents matched the filter criteria'', s))
   \<and> (isConnected s \<and> confirmDeletion q = Some (JBool True) \<and> d_filter q = Some g \<and> g \<noteq> [] \<and>
    find_docs D (db s (d_collection q)) (JObj g) = [] \<longrightarrow>
      MongoDeleteTool_execute D q s =
        (NothingDeleted (d_operation q) (d_collection q) 0 ''No documents matched the filter criteria'', s))"
  by (simp add: MongoUpdateTool_execute_def MongoUpdateTool_body_def MongoDeleteTool_execute_def
      MongoDeleteTool_body_def catch_outcome_simps Object_keys_def getCollection_def
      cursor_limit_def countDocuments_def Let_def)

theorem no_match_no_write_witness:
  "MongoUpdateTool_execute example_driver activate_managers (users_store 3) =
     (NothingUpdated ''updateMany'' ''users'' 0 0 ''No documents matched the filter criteria'', users_store 3)
   \<and> MongoDeleteTool_execute example_driver
       (delete_inactive\<lparr>d_filter := Some [(''role'', JStr ''Manager'')]\<rparr>) (users_store 3) =
     (NothingDeleted ''deleteMany'' ''users'' 0 ''No documents matched the filter criteria'', users_store 3)"
  using no_match_no_write [of "users_store 3" activate_managers "[(''role'', JStr ''Manager'')]" example_driver
      "delete_inactive\<lparr>d_filter := Some [(''role'', JStr ''Manager'')]\<rparr>" "[(''role'', JStr ''Manager'')]"]
  by (simp add: activate_managers_def delete_inactive_def no_managers options_of_def flag_def)
     (simp add: users_store_def)

section \<open>Properties of the query tool\<close>

lemma find_capped:
  assumes "isConnected s" and "f_operation p = ''find''" and "f_limit p = Some n" and "1 \<le> n"
    and "MongoTool_execute D p s = (Fetched op c k (JArr xs), s')"
  shows "length xs \<le> 100 \<and> k = length xs"
  using assms
  by (auto simp: MongoTool_execute_def MongoTool_body_def catch_outcome_simps getCollection_def
      cursor_limit_def result_count_def Let_def split: option.splits if_splits)

lemma aggregate_uncapped:
  assumes "isConnected s" and "f_operation p = ''aggregate''" and "f_query p = Some (JArr stages)"
    and "f_limit p = Some n" and "0 < n"
  shows "MongoTool_execute D p s =
           (Fetched ''aggregate'' (f_collection p)
              (length (take (nat n) (q_pipeline D stages (db s (f_collection p)))))
              (JArr (map JObj (take (nat n) (q_pipeline D stages (db s (f_collection p)))))), s)"
  using assms
  by (simp add: MongoTool_execute_def MongoTool_body_def catch_outcome_simps getCollection_def
      aggregate_limit_def result_count_def Let_def)

text \<open>\<^verbatim>\<open>find\<close> with \<^verbatim>\<open>limit: 0\<close> passes \<^verbatim>\<open>Math.min(0, 100) = 0\<close> to the cursor, which reads
  it as "no limit".\<close>

lemma find_limit_zero_not_capped:
  "MongoTool_execute example_driver find_unlimited (users_store 150) =
     (Fetched ''find'' ''users'' 150 (JArr (replicate 150 (JObj developer))), users_store 150)"
proof -
  have all: "find_docs example_driver (replicate 150 developer) (JObj []) = replicate 150 developer"
    by (simp add: find_docs_def example_driver_def field_match_def)
  show ?thesis
    by (simp add: MongoTool_execute_def MongoTool_body_def catch_outcome_simps getCollection_def
        cursor_limit_def result_count_def Let_def find_unlimited_def users_store_def all)
       (simp add: example_driver_def)
qed

text \<open>
  Claim C1. The claim is that \<^verbatim>\<open>find\<close> and \<^verbatim>\<open>aggregate\<close> never return more than 100
  documents. \<^verbatim>\<open>find\<close> passes \<^verbatim>\<open>Math.min(limit, 100)\<close> to the cursor (\<open>find_capped\<close>), but
  \<^verbatim>\<open>aggregate\<close> passes the requested limit as it is (\<open>aggregate_uncapped\<close>). Run on a
  collection of 150 documents with the empty pipeline and \<^verbatim>\<open>limit: 150\<close>, the tool returns
  a success outcome with all 150 documents.
\<close>

theorem aggregate_limit_not_capped:
  "MongoTool_execute example_driver aggregate_150 (users_store 150) =
     (Fetched ''aggregate'' ''users'' 150 (JArr (replicate 150 (JObj developer))), users_store 150)"
proof -
  have "MongoTool_execute example_driver aggregate_150 (users_store 150) =
          (Fetched ''aggregate'' (f_collection aggregate_150)
             (length (take (nat 150) (q_pipeline example_driver [] (db (users_store 150) (f_collection aggregate_150)))))
             (JArr (map JObj (take (nat 150) (q_pipeline example_driver [] (db (users_store 150) (f_collection aggregate_150)))))),
           users_store 150)"
    by (rule aggregate_uncapped [where n = 150]) (simp_all add: aggregate_150_def users_store_def)
  then show ?thesis
    by (simp add: aggregate_150_def users_store_def example_driver_def)
qed

section \<open>Properties of the registry\<close>

lemma map_of_set_key: "map_of (set_key k v kvs) = (map_of kvs)(k \<mapsto> v)"
  by (induction kvs) (auto simp: fun_eq_iff)

lemma keys_set_key:
  "map fst (set_key k v kvs) = (if k \<in> fst ` set kvs then map fst kvs else map fst kvs @ [k])"
  by (induction kvs) force+

lemma Map_has_iff: "Map_has m k \<longleftrightarrow> k \<in> fst ` set m"
  by (simp add: Map_has_def map_of_eq_None_iff)

text \<open>
  Claim C5, as amended. \<^verbatim>\<open>registerTool\<close> has no failure path. When the tool's name is
  already registered, the call replaces the registration under that name by the new tool.
  The registered names and their order stay as they were, so no two registered tools
  share a name; every registration under another name and the conversation history are
  unchanged.
\<close>

theorem registerTool_replaces:
  assumes "Map_has (tools a) (name t)"
  shows "Map_get (tools (registerTool t a)) (name t) = Some t
       \<and> map fst (tools (registerTool t a)) = map fst (tools a)
       \<and> (distinct (map fst (tools a)) \<longrightarrow> distinct (map fst (tools (registerTool t a))))
       \<and> (\<forall>k. k \<noteq> name t \<longrightarrow> Map_get (tools (registerTool t a)) k = Map_get (tools a) k)
       \<and> conversationHistory (registerTool t a) = conversationHistory a"
  using assms
  by (simp add: registerTool_def Map_get_def map_of_set_key keys_set_key Map_has_iff)

lemma tools_one: "tools (registerTool counter_tool new_agent) = [(''count'', counter_tool)]"
  by (simp add: registerTool_def new_agent_def counter_tool_def)

lemma tools_replaced:
  "tools (registerTool counter_tool_v2 (registerTool counter_tool new_agent)) = [(''count'', counter_tool_v2)]"
  by (simp add: registerTool_def new_agent_def counter_tool_def counter_tool_v2_def)

lemma tools_differ: "counter_tool_v2 \<noteq> counter_tool"
proof
  assume "counter_tool_v2 = counter_tool"
  then have "description counter_tool_v2 = description counter_tool" by simp
  then show False by (simp add: counter_tool_def counter_tool_v2_def)
qed

text \<open>
  Claim C5 as stated fails: registering \<open>counter_tool_v2\<close> on a registry that already
  holds a tool named \<^verbatim>\<open>count\<close> returns a registry in which that name now maps to the new
  tool.
\<close>

theorem registerTool_duplicate_counterexample:
  "Map_has (tools (registerTool counter_tool new_agent)) (name counter_tool_v2)
   \<and> Map_get (tools (registerTool counter_tool new_agent)) (name counter_tool_v2) = Some counter_tool
   \<and> Map_get (tools (registerTool counter_tool_v2 (registerTool counter_tool new_agent))) (name counter_tool_v2)
        = Some counter_tool_v2
   \<and> registerTool counter_tool_v2 (registerTool counter_tool new_agent) \<noteq> registerTool counter_tool new_agent"
proof -
  have n: "name counter_tool_v2 = ''count''"
    by (simp add: counter_tool_v2_def)
  have "tools (registerTool counter_tool_v2 (registerTool counter_tool new_agent))
          \<noteq> tools (registerTool counter_tool new_agent)"
    using tools_differ by (simp add: tools_one tools_replaced)
  then have "registerTool counter_tool_v2 (registerTool counter_tool new_agent) \<noteq> registerTool counter_tool new_agent"
    by auto
  then show ?thesis
    by (simp add: n tools_one tools_replaced Map_has_def Map_get_def)
qed

theorem registerTool_replaces_witness:
  "Map_has (tools (registerTool counter_tool new_agent)) (name counter_tool_v2)
   \<and> Map_get (tools (registerTool counter_tool_v2 (registerTool counter_tool new_agent))) ''count''
        = Some counter_tool_v2
   \<and> map fst (tools (registerTool counter_tool_v2 (registerTool counter_tool new_agent))) = [''count'']"
proof -
  have n: "name counter_tool_v2 = ''count''"
    by (simp add: counter_tool_v2_def)
  have h: "Map_has (tools (registerTool counter_tool new_agent)) (name counter_tool_v2)"
    by (simp add: n tools_one Map_has_def)
  show ?thesis
    using h registerTool_replaces [OF h] by (simp add: n tools_one)
qed

lemma fold_info_lookup:
  "distinct (map fst kvs) \<Longrightarrow>
   map_of (fold (\<lambda>(nm, t) toolInfo. set_key nm (g t) toolInfo) kvs acc) k =
     (case map_of kvs k of None \<Rightarrow> map_of acc k | Some t \<Rightarrow> Some (g t))"
proof (induction kvs arbitrary: acc)
  case Nil
  then show ?case by simp
next
  case (Cons kv kvs)
  obtain nm t where kv: "kv = (nm, t)" by (cases kv)
  from Cons.prems have fresh: "map_of kvs nm = None" and rest: "distinct (map fst kvs)"
    by (auto simp: kv map_of_eq_None_iff)
  show ?case
    using Cons.IH [OF rest, of "set_key nm (g t) acc"] fresh
    by (auto simp: kv map_of_set_key split: option.splits)
qed

lemma distinct_set_key: "distinct (map fst kvs) \<Longrightarrow> distinct (map fst (set_key k v kvs))"
  by (simp add: keys_set_key)

text \<open>
  Claim C9. After registering a tool, \<^verbatim>\<open>getToolInfo()\<close> holds an entry under the tool's
  name whose \<^verbatim>\<open>parameters\<close> (and name and description) are the ones the tool was
  registered with. The registry is a \<^verbatim>\<open>Map\<close>, whose keys are distinct.
\<close>

theorem getToolInfo_roundtrip:
  assumes "distinct (map fst (tools a))"
  shows "map_of (getToolInfo (registerTool t a)) (name t) =
           Some \<lparr>ti_name = name t, ti_description = description t, ti_parameters = parameters t\<rparr>"
proof -
  have "distinct (map fst (tools (registerTool t a)))"
    using assms by (simp add: registerTool_def distinct_set_key)
  moreover have "map_of (tools (registerTool t a)) (name t) = Some t"
    by (simp add: registerTool_def map_of_set_key)
  ultimately show ?thesis
    by (simp add: getToolInfo_def fold_info_lookup)
qed

theorem getToolInfo_roundtrip_witness:
  "distinct (map fst (tools two_tool_agent))
   \<and> map_of (getToolInfo (registerTool counter_tool_v2 two_tool_agent)) ''count'' =
       Some \<lparr>ti_name = ''count'', ti_description = ''Counts its calls twice'',
             ti_parameters = JObj [(''type'', JStr ''object''), (''required'', JArr [])]\<rparr>"
proof -
  have d: "distinct (map fst (tools two_tool_agent))"
    by (simp add: two_tool_agent_def registerTool_def new_agent_def counter_tool_def failing_tool_def)
  show ?thesis
    using d getToolInfo_roundtrip [OF d, of counter_tool_v2]
    by (simp add: counter_tool_v2_def)
qed

section \<open>Properties of the agent\<close>

lemma executeToolCall_id:
  "tool_call_id (fst (executeToolCall E reg c v)) = tc_id c
   \<and> tool_name (fst (executeToolCall E reg c v)) = tc_name c"
  by (simp add: executeToolCall_def caught_def Let_def split: sum.splits option.splits prod.splits)

lemma executeToolCalls_ids:
  "map tool_call_id (fst (executeToolCalls E reg calls w)) = map tc_id calls
   \<and> map tool_name (fst (executeToolCalls E reg calls w)) = map tc_name calls"
proof (induction calls arbitrary: w)
  case Nil
  then show ?case by simp
next
  case (Cons c calls)
  obtain r w1 where one: "executeToolCall E reg c w = (r, w1)"
    by (cases "executeToolCall E reg c w")
  obtain rs w2 where more: "executeToolCalls E reg calls w1 = (rs, w2)"
    by (cases "executeToolCalls E reg calls w1")
  from executeToolCall_id [of E reg c w] one
  have "tool_call_id r = tc_id c" and "tool_name r = tc_name c" by simp_all
  with Cons.IH [of w1] one more show ?case by simp
qed

lemma length_executeToolCalls: "length (fst (executeToolCalls E reg calls w)) = length calls"
  using arg_cong [OF conjunct1 [OF executeToolCalls_ids [of E reg calls w]], of length] by simp



lemma processMessage_tool_history:
  assumes "chatWithTools E
             (\<lparr>m_role = System, m_content = Some systemPrompt, m_tool_calls = None, m_tool_call_id = None\<rparr>
              # conversationHistory a
              @ [\<lparr>m_role = User, m_content = Some u, m_tool_calls = None, m_tool_call_id = None\<rparr>])
             (getAvailableTools a) = Inr response"
    and "r_tool_calls response = Some cs" and "cs \<noteq> []"
  shows "\<exists>final.
           conversationHistory (fst (snd (processMessage E u a w))) =
             conversationHistory a
             @ [\<lparr>m_role = User, m_content = Some u, m_tool_calls = None, m_tool_call_id = None\<rparr>,
                \<lparr>m_role = Assistant,
                 m_content = Some (case r_content response of None \<Rightarrow> [] | Some x \<Rightarrow> x),
                 m_tool_calls = Some cs, m_tool_call_id = None\<rparr>]
             @ map (\<lambda>r. \<lparr>m_role = Tool, m_content = Some (JSON_stringify E (result r)),
                         m_tool_calls = None, m_tool_call_id = Some (tool_call_id r)\<rparr>)
                 (fst (executeToolCalls E (tools a) cs w))
             @ final
         \<and> (case fst (processMessage E u a w) of
               TurnOk resp used res \<Rightarrow>
                 final = [\<lparr>m_role = Assistant, m_content = resp, m_tool_calls = None, m_tool_call_id = None\<rparr>]
                 \<and> used = map tc_name cs
                 \<and> res = map result (fst (executeToolCalls E (tools a) cs w))
             | TurnFailed e \<Rightarrow> final = [])"
proof -
  have tm: "tool_message E = (\<lambda>r. \<lparr>m_role = Tool, m_content = Some (JSON_stringify E (result r)),
                         m_tool_calls = None, m_tool_call_id = Some (tool_call_id r)\<rparr>)"
    by (simp add: fun_eq_iff tool_message_def)
  show ?thesis
    using assms
    by (auto simp: processMessage_def getAvailableTools_def Let_def text_message_def
        calls_message_def tm split: prod.splits sum.splits)
qed


text \<open>
  Claim C8. A successful turn whose model response carries no tool calls (none, or an
  empty list) appends exactly two messages: the user message (role \<^verbatim>\<open>user\<close>, the text
  sent) and the assistant message (role \<^verbatim>\<open>assistant\<close>, the model's content). A successful
  turn whose response carries \<open>N \<ge> 1\<close> calls appends the user message, the assistant
  message with the calls, one message of role \<^verbatim>\<open>tool\<close> for each of the \<open>N\<close> results, and the
  final assistant message with the returned response: \<open>N + 3\<close> messages.
\<close>

theorem processMessage_appends:
  assumes ok: "processMessage E u a w = (TurnOk resp used res, a', w')"
  shows "\<exists>response.
           chatWithTools E
             (\<lparr>m_role = System, m_content = Some systemPrompt, m_tool_calls = None, m_tool_call_id = None\<rparr>
              # conversationHistory a
              @ [\<lparr>m_role = User, m_content = Some u, m_tool_calls = None, m_tool_call_id = None\<rparr>])
             (getAvailableTools a) = Inr response
         \<and> (if (case r_tool_calls response of None \<Rightarrow> [] | Some calls \<Rightarrow> calls) = [] then
               conversationHistory a' =
                 conversationHistory a
                 @ [\<lparr>m_role = User, m_content = Some u, m_tool_calls = None, m_tool_call_id = None\<rparr>,
                    \<lparr>m_role = Assistant, m_content = r_content response, m_tool_calls = None,
                     m_tool_call_id = None\<rparr>]
               \<and> resp = r_content response \<and> used = [] \<and> res = []
               \<and> length (conversationHistory a') = length (conversationHistory a) + 2
             else
               conversationHistory a' =
                 conversationHistory a
                 @ [\<lparr>m_role = User, m_content = Some u, m_tool_calls = None, m_tool_call_id = None\<rparr>,
                    \<lparr>m_role = Assistant,
                     m_content = Some (case r_content response of None \<Rightarrow> [] | Some x \<Rightarrow> x),
                     m_tool_calls = r_tool_calls response, m_tool_call_id = None\<rparr>]
                 @ map (\<lambda>r. \<lparr>m_role = Tool, m_content = Some (JSON_stringify E (result r)),
                             m_tool_calls = None, m_tool_call_id = Some (tool_call_id r)\<rparr>)
                     (fst (executeToolCalls E (tools a)
                        (case r_tool_calls response of None \<Rightarrow> [] | Some calls \<Rightarrow> calls) w))
                 @ [\<lparr>m_role = Assistant, m_content = resp, m_tool_calls = None, m_tool_call_id = None\<rparr>]
               \<and> used = map tc_name (case r_tool_calls response of None \<Rightarrow> [] | Some calls \<Rightarrow> calls)
               \<and> res = map result (fst (executeToolCalls E (tools a)
                             (case r_tool_calls response of None \<Rightarrow> [] | Some calls \<Rightarrow> calls) w))
               \<and> length (fst (executeToolCalls E (tools a)
                             (case r_tool_calls response of None \<Rightarrow> [] | Some calls \<Rightarrow> calls) w)) =
                   length (case r_tool_calls response of None \<Rightarrow> [] | Some calls \<Rightarrow> calls)
               \<and> length (conversationHistory a') =
                   length (conversationHistory a) +
                   length (case r_tool_calls response of None \<Rightarrow> [] | Some calls \<Rightarrow> calls) + 3)"
proof -
  let ?messages =
    "\<lparr>m_role = System, m_content = Some systemPrompt, m_tool_calls = None, m_tool_call_id = None\<rparr>
     # conversationHistory a
     @ [\<lparr>m_role = User, m_content = Some u, m_tool_calls = None, m_tool_call_id = None\<rparr>]"
  obtain response where chat: "chatWithTools E ?messages (getAvailableTools a) = Inr response"
    using ok by (cases "chatWithTools E ?messages (getAvailableTools a)")
      (simp_all add: processMessage_def getAvailableTools_def Let_def text_message_def)
  show ?thesis
  proof (cases "r_tool_calls response")
    case None
    with ok chat show ?thesis
      by (auto simp: processMessage_def getAvailableTools_def Let_def text_message_def)
  next
    case (Some calls)
    show ?thesis
    proof (cases "calls = []")
      case True
      with ok chat Some show ?thesis
        by (auto simp: processMessage_def getAvailableTools_def Let_def text_message_def)
    next
      case False
      from processMessage_tool_history [OF chat Some False, of w] ok
      have hist: "conversationHistory a' =
             conversationHistory a
             @ [\<lparr>m_role = User, m_content = Some u, m_tool_calls = None, m_tool_call_id = None\<rparr>,
                \<lparr>m_role = Assistant,
                 m_content = Some (case r_content response of None \<Rightarrow> [] | Some x \<Rightarrow> x),
                 m_tool_calls = Some calls, m_tool_call_id = None\<rparr>]
             @ map (\<lambda>r. \<lparr>m_role = Tool, m_content = Some (JSON_stringify E (result r)),
                         m_tool_calls = None, m_tool_call_id = Some (tool_call_id r)\<rparr>)
                 (fst (executeToolCalls E (tools a) calls w))
             @ [\<lparr>m_role = Assistant, m_content = resp, m_tool_calls = None, m_tool_call_id = None\<rparr>]"
        and used: "used = map tc_name calls"
        and res: "res = map result (fst (executeToolCalls E (tools a) calls w))"
        by auto
      have "length (conversationHistory a') = length (conversationHistory a) + length calls + 3"
        by (simp add: hist length_executeToolCalls)
      with hist used res chat Some False show ?thesis
        by (intro exI [of _ response]) (simp add: length_executeToolCalls)
    qed
  qed
qed


lemma tools_two: "tools two_tool_agent = [(''explode'', failing_tool), (''count'', counter_tool)]"
  by (simp add: two_tool_agent_def registerTool_def new_agent_def counter_tool_def failing_tool_def)

lemma history_two: "conversationHistory two_tool_agent = []"
  by (simp add: two_tool_agent_def registerTool_def new_agent_def)

lemma run_four_calls:
  "executeToolCalls scripted_env (tools two_tool_agent) four_calls 0 =
     ([\<lparr>tool_call_id = ''call_1'', tool_name = ''explode'',
        result = JObj [(''success'', JBool False), (''error'', JStr ''boom'')]\<rparr>,
       \<lparr>tool_call_id = ''call_2'', tool_name = ''missing'',
        result = JObj [(''success'', JBool False), (''error'', JStr ''Unknown tool: missing'')]\<rparr>,
       \<lparr>tool_call_id = ''call_3'', tool_name = ''count'',
        result = JObj [(''success'', JBool False), (''error'', JStr ''Unexpected end of JSON input'')]\<rparr>,
       \<lparr>tool_call_id = ''call_4'', tool_name = ''count'',
        result = JObj [(''success'', JBool True), (''count'', JNum 1)]\<rparr>], 1)"
  by (simp add: tools_two four_calls_def executeToolCall_def scripted_env_def Map_has_def Map_get_def
      call_explode_def call_missing_def call_bad_arguments_def call_count_def
      failing_tool_def counter_tool_def Let_def caught_def failure_result_def)

lemma scripted_model:
  "sendMessage scripted_env messages (Some ts) = Inr \<lparr>r_content = None, r_tool_calls = Some four_calls\<rparr>"
  "sendMessage scripted_env messages None = Inr \<lparr>r_content = Some ''Done.'', r_tool_calls = None\<rparr>"
  "JSON_stringify scripted_env = render_flag"
  by (simp_all add: scripted_env_def)

lemma four_calls_nonempty: "four_calls \<noteq> []" "0 < length four_calls" "length four_calls = 4"
  by (simp_all add: four_calls_def)

lemma four_calls_names: "map tc_name four_calls = [''explode'', ''missing'', ''count'', ''count'']"
  by (simp add: four_calls_def call_explode_def call_missing_def call_bad_arguments_def call_count_def)


lemma run_tool_turn:
  "processMessage scripted_env ''go'' two_tool_agent 0 =
     (TurnOk (Some ''Done.'') [''explode'', ''missing'', ''count'', ''count'']
        [JObj [(''success'', JBool False), (''error'', JStr ''boom'')],
         JObj [(''success'', JBool False), (''error'', JStr ''Unknown tool: missing'')],
         JObj [(''success'', JBool False), (''error'', JStr ''Unexpected end of JSON input'')],
         JObj [(''success'', JBool True), (''count'', JNum 1)]],
      two_tool_agent\<lparr>conversationHistory :=
        [\<lparr>m_role = User, m_content = Some ''go'', m_tool_calls = None, m_tool_call_id = None\<rparr>,
         \<lparr>m_role = Assistant, m_content = Some [], m_tool_calls = Some four_calls, m_tool_call_id = None\<rparr>,
         \<lparr>m_role = Tool, m_content = Some ''failure'', m_tool_calls = None, m_tool_call_id = Some ''call_1''\<rparr>,
         \<lparr>m_role = Tool, m_content = Some ''failure'', m_tool_calls = None, m_tool_call_id = Some ''call_2''\<rparr>,
         \<lparr>m_role = Tool, m_content = Some ''failure'', m_tool_calls = None, m_tool_call_id = Some ''call_3''\<rparr>,
         \<lparr>m_role = Tool, m_content = Some ''success'', m_tool_calls = None, m_tool_call_id = Some ''call_4''\<rparr>,
         \<lparr>m_role = Assistant, m_content = Some ''Done.'', m_tool_calls = None, m_tool_call_id = None\<rparr>]\<rparr>,
      1)"
  by (simp add: processMessage_def Let_def chatWithTools_def scripted_model four_calls_nonempty
      run_four_calls history_two four_calls_names tool_message_def text_message_def calls_message_def
      render_flag_def get_prop_def)


lemma run_chat_turn:
  "processMessage chat_env ''hi'' two_tool_agent 0 =
     (TurnOk (Some ''Hello.'') [] [],
      two_tool_agent\<lparr>conversationHistory :=
        [\<lparr>m_role = User, m_content = Some ''hi'', m_tool_calls = None, m_tool_call_id = None\<rparr>,
         \<lparr>m_role = Assistant, m_content = Some ''Hello.'', m_tool_calls = None, m_tool_call_id = None\<rparr>]\<rparr>,
      0)"
  by (simp add: processMessage_def Let_def chatWithTools_def chat_env_def history_two text_message_def)

theorem processMessage_appends_witness:
  "fst (processMessage scripted_env ''go'' two_tool_agent 0) =
     TurnOk (Some ''Done.'') [''explode'', ''missing'', ''count'', ''count'']
       [JObj [(''success'', JBool False), (''error'', JStr ''boom'')],
        JObj [(''success'', JBool False), (''error'', JStr ''Unknown tool: missing'')],
        JObj [(''success'', JBool False), (''error'', JStr ''Unexpected end of JSON input'')],
        JObj [(''success'', JBool True), (''count'', JNum 1)]]
   \<and> conversationHistory (fst (snd (processMessage scripted_env ''go'' two_tool_agent 0))) =
       [\<lparr>m_role = User, m_content = Some ''go'', m_tool_calls = None, m_tool_call_id = None\<rparr>,
        \<lparr>m_role = Assistant, m_content = Some [], m_tool_calls = Some four_calls, m_tool_call_id = None\<rparr>,
        \<lparr>m_role = Tool, m_content = Some ''failure'', m_tool_calls = None, m_tool_call_id = Some ''call_1''\<rparr>,
        \<lparr>m_role = Tool, m_content = Some ''failure'', m_tool_calls = None, m_tool_call_id = Some ''call_2''\<rparr>,
        \<lparr>m_role = Tool, m_content = Some ''failure'', m_tool_calls = None, m_tool_call_id = Some ''call_3''\<rparr>,
        \<lparr>m_role = Tool, m_content = Some ''success'', m_tool_calls = None, m_tool_call_id = Some ''call_4''\<rparr>,
        \<lparr>m_role = Assistant, m_content = Some ''Done.'', m_tool_calls = None, m_tool_call_id = None\<rparr>]
   \<and> length (conversationHistory (fst (snd (processMessage scripted_env ''go'' two_tool_agent 0)))) =
       length (conversationHistory two_tool_agent) + length four_calls + 3
   \<and> fst (processMessage chat_env ''hi'' two_tool_agent 0) = TurnOk (Some ''Hello.'') [] []
   \<and> conversationHistory (fst (snd (processMessage chat_env ''hi'' two_tool_agent 0))) =
       [\<lparr>m_role = User, m_content = Some ''hi'', m_tool_calls = None, m_tool_call_id = None\<rparr>,
        \<lparr>m_role = Assistant, m_content = Some ''Hello.'', m_tool_calls = None, m_tool_call_id = None\<rparr>]
   \<and> length (conversationHistory (fst (snd (processMessage chat_env ''hi'' two_tool_agent 0)))) =
       length (conversationHistory two_tool_agent) + 2"
proof -
  have chat1: "chatWithTools scripted_env msgs ts = Inr \<lparr>r_content = None, r_tool_calls = Some four_calls\<rparr>"
    for msgs and ts :: "nat tool list"
    by (simp add: chatWithTools_def scripted_model)
  have chat2: "chatWithTools chat_env msgs ts = Inr \<lparr>r_content = Some ''Hello.'', r_tool_calls = None\<rparr>"
    for msgs and ts :: "nat tool list"
    by (simp add: chatWithTools_def chat_env_def)
  from processMessage_appends [OF run_tool_turn]
  have tools_turn: "conversationHistory (fst (snd (processMessage scripted_env ''go'' two_tool_agent 0))) =
       [\<lparr>m_role = User, m_content = Some ''go'', m_tool_calls = None, m_tool_call_id = None\<rparr>,
        \<lparr>m_role = Assistant, m_content = Some [], m_tool_calls = Some four_calls, m_tool_call_id = None\<rparr>,
        \<lparr>m_role = Tool, m_content = Some ''failure'', m_tool_calls = None, m_tool_call_id = Some ''call_1''\<rparr>,
        \<lparr>m_role = Tool, m_content = Some ''failure'', m_tool_calls = None, m_tool_call_id = Some ''call_2''\<rparr>,
        \<lparr>m_role = Tool, m_content = Some ''failure'', m_tool_calls = None, m_tool_call_id = Some ''call_3''\<rparr>,
        \<lparr>m_role = Tool, m_content = Some ''success'', m_tool_calls = None, m_tool_call_id = Some ''call_4''\<rparr>,
        \<lparr>m_role = Assistant, m_content = Some ''Done.'', m_tool_calls = None, m_tool_call_id = None\<rparr>]"
    and tools_len: "length (conversationHistory (fst (snd (processMessage scripted_env ''go'' two_tool_agent 0)))) =
       length (conversationHistory two_tool_agent) + length four_calls + 3"
    by (auto simp: chat1 four_calls_nonempty run_tool_turn history_two)
  from processMessage_appends [OF run_chat_turn]
  have chat_turn: "conversationHistory (fst (snd (processMessage chat_env ''hi'' two_tool_agent 0))) =
       [\<lparr>m_role = User, m_content = Some ''hi'', m_tool_calls = None, m_tool_call_id = None\<rparr>,
        \<lparr>m_role = Assistant, m_content = Some ''Hello.'', m_tool_calls = None, m_tool_call_id = None\<rparr>]"
    and chat_len: "length (conversationHistory (fst (snd (processMessage chat_env ''hi'' two_tool_agent 0)))) =
       length (conversationHistory two_tool_agent) + 2"
    by (auto simp: chat2 run_chat_turn history_two)
  have t1: "fst (processMessage scripted_env ''go'' two_tool_agent 0) =
     TurnOk (Some ''Done.'') [''explode'', ''missing'', ''count'', ''count'']
       [JObj [(''success'', JBool False), (''error'', JStr ''boom'')],
        JObj [(''success'', JBool False), (''error'', JStr ''Unknown tool: missing'')],
        JObj [(''success'', JBool False), (''error'', JStr ''Unexpected end of JSON input'')],
        JObj [(''success'', JBool True), (''count'', JNum 1)]]"
    by (simp add: run_tool_turn)
  have t2: "fst (processMessage chat_env ''hi'' two_tool_agent 0) = TurnOk (Some ''Hello.'') [] []"
    by (simp add: run_chat_turn)
  show ?thesis
    by (intro conjI) (fact t1 tools_turn tools_len t2 chat_turn chat_len)+
qed

section \<open>Properties of the insert tool\<close>

lemma get_prop_set_key: "get_prop (set_key k v d) k = Some v"
  by (simp add: get_prop_def map_of_set_key)

lemma generate_id_own: "has_own_id (fst (generate_id d n))"
proof (cases "truthy_prop d ''_id''")
  case True
  then obtain v where "get_prop d ''_id'' = Some v" and "truthy v"
    by (auto simp: truthy_prop_def split: option.splits)
  moreover from \<open>truthy v\<close> have "v \<noteq> JNull" by auto
  ultimately show ?thesis
    using True by (simp add: generate_id_def has_own_id_def)
next
  case False
  then show ?thesis
    by (simp add: generate_id_def has_own_id_def get_prop_set_key)
qed

lemma thread_length: "thread g xs n = (ys, m) \<Longrightarrow> length ys = length xs"
  by (induction xs arbitrary: n ys) (auto split: prod.splits)

lemma thread_mono:
  assumes "\<And>x k. k \<le> snd (g x k)"
  shows "thread g xs n = (ys, m) \<Longrightarrow> n \<le> m"
proof (induction xs arbitrary: n ys m)
  case Nil
  then show ?case by simp
next
  case (Cons x xs)
  obtain y n1 where head: "g x n = (y, n1)" by (cases "g x n")
  obtain zs n2 where tail: "thread g xs n1 = (zs, n2)" by (cases "thread g xs n1")
  from Cons.prems head tail have "m = n2" by simp
  moreover have "n \<le> n1" using assms [of n x] head by simp
  moreover have "n1 \<le> n2" using Cons.IH [OF tail] .
  ultimately show ?case by simp
qed

lemma thread_nth:
  assumes grows: "\<And>x k. k \<le> snd (g x k)"
  shows "thread g xs n = (ys, m) \<Longrightarrow> i < length xs \<Longrightarrow>
         \<exists>k. n \<le> k \<and> snd (g (xs ! i) k) \<le> m \<and> ys ! i = fst (g (xs ! i) k)"
proof (induction xs arbitrary: n ys i m)
  case Nil
  then show ?case by simp
next
  case (Cons x xs)
  obtain y n1 where head: "g x n = (y, n1)" by (cases "g x n")
  obtain zs n2 where tail: "thread g xs n1 = (zs, n2)" by (cases "thread g xs n1")
  from Cons.prems(1) head tail have ys: "ys = y # zs" and m: "m = n2" by simp_all
  have step: "n \<le> n1" using grows [of n x] head by simp
  have rest: "n1 \<le> n2" using thread_mono [OF grows tail] .
  show ?case
  proof (cases i)
    case 0
    with head ys m rest show ?thesis
      by (intro exI [of _ n]) simp
  next
    case (Suc j)
    with Cons.prems(2) have "j < length xs" by simp
    from Cons.IH [OF tail this]
    obtain k where "n1 \<le> k" and "snd (g (xs ! j) k) \<le> n2" and "zs ! j = fst (g (xs ! j) k)"
      by blast
    with step Suc ys m show ?thesis
      by (intro exI [of _ k]) simp
  qed
qed

lemma thread_generate_id_own: "thread generate_id ds n = (ys, m) \<Longrightarrow> list_all has_own_id ys"
proof (induction ds arbitrary: n ys m)
  case Nil
  then show ?case by simp
next
  case (Cons d ds)
  obtain y n1 where head: "generate_id d n = (y, n1)" by (cases "generate_id d n")
  obtain zs n2 where tail: "thread generate_id ds n1 = (zs, n2)" by (cases "thread generate_id ds n1")
  from generate_id_own [of d n] head have "has_own_id y" by simp
  with Cons.IH [OF tail] Cons.prems head tail show ?case by auto
qed

lemma thread_ensure_id_own: "list_all has_own_id ds \<Longrightarrow> thread ensure_id ds n = (ds, n)"
  by (induction ds) (simp_all add: ensure_id_def)

lemma ensure_id_own: "has_own_id (fst (ensure_id d n))"
  by (simp add: ensure_id_def has_own_id_def get_prop_set_key)

lemma thread_ensure_id_result_own: "thread ensure_id ds n = (ys, m) \<Longrightarrow> list_all has_own_id ys"
proof (induction ds arbitrary: n ys m)
  case Nil
  then show ?case by simp
next
  case (Cons d ds)
  obtain y n1 where head: "ensure_id d n = (y, n1)" by (cases "ensure_id d n")
  obtain zs n2 where tail: "thread ensure_id ds n1 = (zs, n2)" by (cases "thread ensure_id ds n1")
  from ensure_id_own [of d n] head have "has_own_id y" by simp
  with Cons.IH [OF tail] Cons.prems head tail show ?case by auto
qed

lemma insert_all_None:
  "insert_all coll ds = (None, coll') \<Longrightarrow>
   coll' = coll @ ds \<and> distinct (map doc_id ds) \<and> (\<forall>d \<in> set ds. \<not> has_id coll (doc_id d))"
proof (induction ds arbitrary: coll)
  case Nil
  then show ?case by simp
next
  case (Cons d ds)
  from Cons.prems have fresh: "\<not> has_id coll (doc_id d)"
    and rest: "insert_all (coll @ [d]) ds = (None, coll')"
    by (auto split: if_splits)
  from Cons.IH [OF rest]
  have "coll' = coll @ d # ds" and "distinct (map doc_id ds)"
    and "\<forall>x \<in> set ds. \<not> has_id (coll @ [d]) (doc_id x)"
    by simp_all
  with fresh show ?case
    by (auto simp: has_id_def list_ex_iff)
qed

lemma supply_generate_id: "k \<le> snd (generate_id x k)"
  by (simp add: generate_id_def)

lemma supply_ensure_id: "k \<le> snd (ensure_id x k)"
  by (simp add: ensure_id_def)

text \<open>What the tool and the driver together store for the documents of one call.\<close>

lemma stored_documents:
  assumes pre: "(if gen then thread generate_id docs n else (docs, n)) = (processed, n1)"
    and post: "thread ensure_id processed n1 = (stored, n2)"
    and i: "i < length docs"
  shows "length stored = length docs \<and>
         (if truthy_prop (docs ! i) ''_id'' \<or> (\<not> gen \<and> has_own_id (docs ! i))
          then stored ! i = docs ! i
          else \<exists>k. n \<le> k \<and> k < n2 \<and> stored ! i = set_key ''_id'' (JOid k) (docs ! i))"
proof (cases gen)
  case True
  with pre have gen_run: "thread generate_id docs n = (processed, n1)" by simp
  then have "list_all has_own_id processed" by (rule thread_generate_id_own)
  with post have same: "stored = processed" and "n2 = n1"
    by (simp_all add: thread_ensure_id_own)
  from thread_nth [OF supply_generate_id gen_run i]
  obtain k where "n \<le> k" and "snd (generate_id (docs ! i) k) \<le> n1"
    and "processed ! i = fst (generate_id (docs ! i) k)"
    by blast
  with same \<open>n2 = n1\<close> True thread_length [OF gen_run] show ?thesis
    by (auto simp: generate_id_def split: if_splits)
next
  case False
  with pre have "processed = docs" and "n1 = n" by simp_all
  with post have run: "thread ensure_id docs n = (stored, n2)" by simp
  have truthy_own: "truthy_prop (docs ! i) ''_id'' \<Longrightarrow> has_own_id (docs ! i)"
    by (auto simp: truthy_prop_def has_own_id_def split: option.splits)
  from thread_nth [OF supply_ensure_id run i]
  obtain k where "n \<le> k" and "snd (ensure_id (docs ! i) k) \<le> n2"
    and "stored ! i = fst (ensure_id (docs ! i) k)"
    by blast
  with False thread_length [OF run] truthy_own show ?thesis
    by (auto simp: ensure_id_def split: if_splits)
qed


lemma insert_success_run:
  assumes ok: "MongoInsertTool_execute p s = (Inserted op c cnt ids stored, s')"
    and docs: "docs = (case i_data p of Document d \<Rightarrow> [d] | Documents ds \<Rightarrow> ds)"
  shows "\<exists>processed n1.
           (if generateId p \<noteq> Some False then thread generate_id docs (next_oid s) else (docs, next_oid s))
             = (processed, n1)
         \<and> thread ensure_id processed n1 = (stored, next_oid s')
         \<and> insert_all (db s (i_collection p)) stored = (None, db s' (i_collection p))
         \<and> ids = map doc_id stored \<and> cnt = length stored"
proof -
  from ok have conn: "isConnected s"
    by (auto simp: MongoInsertTool_execute_def MongoInsertTool_body_def catch_outcome_def Let_def
        split: if_splits)
  let ?gen = "case generateId p of None \<Rightarrow> True | Some b \<Rightarrow> b"
  have gen: "?gen \<longleftrightarrow> generateId p \<noteq> Some False"
    by (cases "generateId p") auto
  consider (one) doc where "i_operation p = ''insertOne''" "i_data p = Document doc"
    | (many) ds where "i_operation p = ''insertMany''" "i_data p = Documents ds"
    using ok conn
    by (cases "i_data p")
       (auto simp: MongoInsertTool_execute_def MongoInsertTool_body_def catch_outcome_def Let_def
          getCollection_def split: if_splits)
  then show ?thesis
  proof cases
    case one
    obtain pd n1 where pre: "(if ?gen then generate_id doc (next_oid s) else (doc, next_oid s)) = (pd, n1)"
      by (cases "if ?gen then generate_id doc (next_oid s) else (doc, next_oid s)")
    obtain d n2 where post: "ensure_id pd n1 = (d, n2)"
      by (cases "ensure_id pd n1")
    obtain err coll' where ins: "insert_all (db s (i_collection p)) [d] = (err, coll')"
      by (cases "insert_all (db s (i_collection p)) [d]")
    from ok conn one pre post ins
    have res: "err = None" "stored = [d]" "ids = [doc_id d]" "cnt = 1"
      "next_oid s' = n2" "db s' (i_collection p) = coll'"
      by (auto simp: MongoInsertTool_execute_def MongoInsertTool_body_def catch_outcome_def Let_def
          getCollection_def insertOne_def split: if_splits option.splits)
    have "(if generateId p \<noteq> Some False then thread generate_id docs (next_oid s) else (docs, next_oid s))
            = ([pd], n1)"
      using pre gen one docs by (auto split: if_splits)
    moreover have "thread ensure_id [pd] n1 = (stored, next_oid s')"
      using post res by simp
    ultimately show ?thesis
      using ins res by auto
  next
    case many
    obtain processed n1 where pre: "(if ?gen then thread generate_id ds (next_oid s) else (ds, next_oid s)) = (processed, n1)"
      by (cases "if ?gen then thread generate_id ds (next_oid s) else (ds, next_oid s)")
    obtain xs n2 where post: "thread ensure_id processed n1 = (xs, n2)"
      by (cases "thread ensure_id processed n1")
    obtain err coll' where ins: "insert_all (db s (i_collection p)) xs = (err, coll')"
      by (cases "insert_all (db s (i_collection p)) xs")
    from ok conn many pre post ins
    have res: "err = None" "stored = xs" "ids = map doc_id xs" "cnt = length xs"
      "next_oid s' = n2" "db s' (i_collection p) = coll'"
      by (auto simp: MongoInsertTool_execute_def MongoInsertTool_body_def catch_outcome_def Let_def
          getCollection_def insertMany_def split: if_splits option.splits)
    have "(if generateId p \<noteq> Some False then thread generate_id docs (next_oid s) else (docs, next_oid s))
            = (processed, n1)"
      using pre gen many docs by (auto split: if_splits)
    then show ?thesis
      using post ins res by auto
  qed
qed

text \<open>
  Claim C6, as amended. After a successful insert the stored documents correspond one
  to one to the documents of the call, each carries an \<^verbatim>\<open>_id\<close>, and these identifiers are
  pairwise distinct and new to the collection. A document that supplies its own truthy
  \<^verbatim>\<open>_id\<close> is stored as it is, whatever \<^verbatim>\<open>generateId\<close> says. With \<^verbatim>\<open>generateId\<close> true or
  absent every other document gets a fresh ObjectId from the supply. With \<^verbatim>\<open>generateId\<close>
  false the tool generates nothing: a document with a non-null \<^verbatim>\<open>_id\<close> is stored as it is,
  and the driver gives a fresh ObjectId to a document that has none.
\<close>

theorem insert_identifiers:
  assumes ok: "MongoInsertTool_execute p s = (Inserted op c cnt ids stored, s')"
    and docs: "docs = (case i_data p of Document d \<Rightarrow> [d] | Documents ds \<Rightarrow> ds)"
  shows "length stored = length docs \<and> ids = map doc_id stored \<and> list_all has_own_id stored
       \<and> distinct ids \<and> (\<forall>x \<in> set ids. \<not> has_id (db s (i_collection p)) x)
       \<and> (\<forall>i < length docs.
            if truthy_prop (docs ! i) ''_id'' \<or> (generateId p = Some False \<and> has_own_id (docs ! i))
            then stored ! i = docs ! i
            else \<exists>k. next_oid s \<le> k \<and> k < next_oid s' \<and>
                     stored ! i = set_key ''_id'' (JOid k) (docs ! i))"
proof -
  from insert_success_run [OF ok docs]
  obtain processed n1 where
    pre: "(if generateId p \<noteq> Some False then thread generate_id docs (next_oid s) else (docs, next_oid s))
             = (processed, n1)"
    and post: "thread ensure_id processed n1 = (stored, next_oid s')"
    and ins: "insert_all (db s (i_collection p)) stored = (None, db s' (i_collection p))"
    and ids: "ids = map doc_id stored"
    by blast
  from insert_all_None [OF ins]
  have unique: "distinct (map doc_id stored)"
    and fresh: "\<forall>d \<in> set stored. \<not> has_id (db s (i_collection p)) (doc_id d)"
    by simp_all
  have own: "list_all has_own_id stored"
    using post by (rule thread_ensure_id_result_own)
  have len: "length stored = length docs"
  proof (cases "docs = []")
    case True
    with pre post show ?thesis by (auto split: if_splits)
  next
    case False
    then have "0 < length docs" by simp
    from stored_documents [OF pre post this] show ?thesis by simp
  qed
  have each: "\<forall>i < length docs.
            if truthy_prop (docs ! i) ''_id'' \<or> (generateId p = Some False \<and> has_own_id (docs ! i))
            then stored ! i = docs ! i
            else \<exists>k. next_oid s \<le> k \<and> k < next_oid s' \<and>
                     stored ! i = set_key ''_id'' (JOid k) (docs ! i)"
  proof (intro allI impI)
    fix i assume "i < length docs"
    from stored_documents [OF pre post this]
    show "if truthy_prop (docs ! i) ''_id'' \<or> (generateId p = Some False \<and> has_own_id (docs ! i))
            then stored ! i = docs ! i
            else \<exists>k. next_oid s \<le> k \<and> k < next_oid s' \<and>
                     stored ! i = set_key ''_id'' (JOid k) (docs ! i)"
      by simp
  qed
  from len ids own unique fresh each show ?thesis
    by simp
qed


text \<open>
  Claim C6 as stated fails: \<^verbatim>\<open>insertOne\<close> with \<^verbatim>\<open>generateId: true\<close> and a document that
  brings its own \<^verbatim>\<open>_id\<close> stores the document under that identifier, and no ObjectId is
  drawn from the supply.
\<close>

theorem insert_keeps_supplied_id_counterexample:
  "generateId insert_with_own_id = Some True
   \<and> fst (MongoInsertTool_execute insert_with_own_id (users_store 0)) =
       Inserted ''insertOne'' ''users'' 1 [JStr ''user_001''] [john]
   \<and> db (snd (MongoInsertTool_execute insert_with_own_id (users_store 0))) ''users'' = [john]
   \<and> next_oid (snd (MongoInsertTool_execute insert_with_own_id (users_store 0))) = next_oid (users_store 0)"
  by (simp add: MongoInsertTool_execute_def MongoInsertTool_body_def catch_outcome_def Let_def
      getCollection_def insertOne_def insert_with_own_id_def users_store_def generate_id_def
      ensure_id_def has_own_id_def truthy_prop_def get_prop_def doc_id_def has_id_def john_def)

lemma run_insert_three:
  "fst (MongoInsertTool_execute insert_three (users_store 0)) =
     Inserted ''insertMany'' ''users'' 3 [JStr ''user_001'', JOid 0, JOid 1]
       [john, jane @ [(''_id'', JOid 0)], [(''_id'', JOid 1), (''name'', JStr ''Joe Bloggs'')]]"
  by (simp add: MongoInsertTool_execute_def MongoInsertTool_body_def catch_outcome_def Let_def
      getCollection_def insertMany_def insert_three_def users_store_def generate_id_def
      ensure_id_def has_own_id_def truthy_prop_def get_prop_def doc_id_def has_id_def
      john_def jane_def joe_def)

theorem insert_identifiers_witness:
  "fst (MongoInsertTool_execute insert_three (users_store 0)) =
     Inserted ''insertMany'' ''users'' 3 [JStr ''user_001'', JOid 0, JOid 1]
       [john, jane @ [(''_id'', JOid 0)], [(''_id'', JOid 1), (''name'', JStr ''Joe Bloggs'')]]
   \<and> truthy_prop john ''_id'' \<and> \<not> truthy_prop jane ''_id'' \<and> \<not> truthy_prop joe ''_id''
   \<and> distinct [JStr ''user_001'', JOid 0, JOid 1]
   \<and> (\<exists>k. jane @ [(''_id'', JOid 0)] = set_key ''_id'' (JOid k) jane)
   \<and> (\<exists>k. [(''_id'', JOid 1), (''name'', JStr ''Joe Bloggs'')] = set_key ''_id'' (JOid k) joe)"
proof -
  obtain s' where run: "MongoInsertTool_execute insert_three (users_store 0) =
     (Inserted ''insertMany'' ''users'' 3 [JStr ''user_001'', JOid 0, JOid 1]
       [john, jane @ [(''_id'', JOid 0)], [(''_id'', JOid 1), (''name'', JStr ''Joe Bloggs'')]], s')"
    using run_insert_three by (cases "MongoInsertTool_execute insert_three (users_store 0)") simp
  have docs: "[john, jane, joe] = (case i_data insert_three of Document d \<Rightarrow> [d] | Documents ds \<Rightarrow> ds)"
    by (simp add: insert_three_def)
  have gen: "generateId insert_three = None"
    by (simp add: insert_three_def)
  have t1: "truthy_prop john ''_id''" and t2: "\<not> truthy_prop jane ''_id''" and t3: "\<not> truthy_prop joe ''_id''"
    by (simp_all add: truthy_prop_def get_prop_def john_def jane_def joe_def)
  note inst = insert_identifiers [OF run docs]
  from inst have unique: "distinct [JStr ''user_001'', JOid 0, JOid 1]"
    by blast
  from inst have each: "\<forall>i < length [john, jane, joe].
            if truthy_prop ([john, jane, joe] ! i) ''_id'' \<or>
               (generateId insert_three = Some False \<and> has_own_id ([john, jane, joe] ! i))
            then [john, jane @ [(''_id'', JOid 0)], [(''_id'', JOid 1), (''name'', JStr ''Joe Bloggs'')]] ! i
                   = [john, jane, joe] ! i
            else \<exists>k. next_oid (users_store 0) \<le> k \<and> k < next_oid s' \<and>
                     [john, jane @ [(''_id'', JOid 0)], [(''_id'', JOid 1), (''name'', JStr ''Joe Bloggs'')]] ! i
                       = set_key ''_id'' (JOid k) ([john, jane, joe] ! i)"
    by blast
  from each [rule_format, of 1] t2 gen
  have g2: "\<exists>k. jane @ [(''_id'', JOid 0)] = set_key ''_id'' (JOid k) jane"
    by auto
  from each [rule_format, of 2] t3 gen
  have g3: "\<exists>k. [(''_id'', JOid 1), (''name'', JStr ''Joe Bloggs'')] = set_key ''_id'' (JOid k) joe"
    by auto
  show ?thesis
    by (intro conjI) (fact run_insert_three t1 t2 t3 unique g2 g3)+
qed

end
